theory Spec2Isabelle
  imports Main
begin

section \<open>JavaScript values\<close>

text \<open>
  Objects are association lists in insertion order; a property that is not present reads
  as \<open>undefined\<close>, which the model writes \<open>None\<close>. Numbers are integers: the millisecond
  clock, the seconds of \<open>expires_in\<close> and the node counts of the tools are all integral.
\<close>

datatype json =
    JNull
  | JBool bool
  | JNum int
  | JStr string
  | JArr "json list"
  | JObj "(string \<times> json) list"

type_synonym obj = "(string \<times> json) list"

definition get_prop :: "obj \<Rightarrow> string \<Rightarrow> json option" where
  \<comment> \<open>\<open>o.k\<close>: the value of property \<open>k\<close>, \<open>None\<close> when the object has none.\<close>
  "get_prop ob k = map_of ob k"

fun truthy :: "json option \<Rightarrow> bool" where
  \<comment> \<open>JavaScript's conversion to boolean, as \<open>!v\<close> and \<open>if (v)\<close> apply it.\<close>
  "truthy None = False"
| "truthy (Some JNull) = False"
| "truthy (Some (JBool b)) = b"
| "truthy (Some (JNum n)) = (n \<noteq> 0)"
| "truthy (Some (JStr s)) = (s \<noteq> [])"
| "truthy (Some (JArr _)) = True"
| "truthy (Some (JObj _)) = True"

definition omit :: "string \<Rightarrow> obj \<Rightarrow> obj" where
  \<comment> \<open>The rest pattern \<open>({ k, ...rest }) => rest\<close>: a new object with every property but \<open>k\<close>.\<close>
  "omit k ob = filter (\<lambda>kv. fst kv \<noteq> k) ob"

definition optional_prop :: "obj option \<Rightarrow> string \<Rightarrow> json option" where
  \<comment> \<open>Optional chaining \<open>args?.k\<close>: \<open>undefined\<close> when \<open>args\<close> itself is.\<close>
  "optional_prop args k = (case args of None \<Rightarrow> None | Some ob \<Rightarrow> get_prop ob k)"

fun str_includes :: "string \<Rightarrow> string \<Rightarrow> bool" where
  \<comment> \<open>\<open>s.includes(pat)\<close>: \<open>pat\<close> occurs in \<open>s\<close> as a contiguous substring.\<close>
  "str_includes [] pat = (pat = [])"
| "str_includes (c # cs) pat = (take (length pat) (c # cs) = pat \<or> str_includes cs pat)"

section \<open>The server: tool catalog and read-only mode (index.ts)\<close>

type_synonym env = "string \<rightharpoonup> string"

definition WRITABLE_TOOLS :: "string list" where
  \<comment> \<open>Tools that modify resources (create/delete operations).\<close>
  "WRITABLE_TOOLS = [
     ''create_cloudspace'',
     ''delete_cloudspace'',
     ''create_spot_node_pool'',
     ''delete_spot_node_pool'',
     ''create_ondemand_node_pool'',
     ''delete_ondemand_node_pool'']"

definition isReadOnly :: "env \<Rightarrow> bool" where
  "isReadOnly e =
     (let envValue = e ''RACKSPACE_SPOT_READ_ONLY''
      in envValue = Some ''true'' \<or> envValue = Some ''1'')"

subsection \<open>Tool definitions\<close>

definition tool_list_regions :: obj where
  "tool_list_regions = [
    (''name'', JStr ''list_regions''),
    (''description'', JStr ''List all available Rackspace Spot regions where cloudspaces can be deployed. Returns region names, countries, and provider information.''),
    (''inputSchema'', JObj [
      (''type'', JStr ''object''),
      (''properties'', JObj []),
      (''required'', JArr [])])]"

definition tool_get_region :: obj where
  "tool_get_region = [
    (''name'', JStr ''get_region''),
    (''description'', JStr ''Get detailed information about a specific Rackspace Spot region by name.''),
    (''inputSchema'', JObj [
      (''type'', JStr ''object''),
      (''properties'', JObj [
        (''name'', JObj [
          (''type'', JStr ''string''),
          (''description'', JStr ''Region name (e.g., us-central-dfw-1, us-east-iad-1, eu-west-lon-1)'')])]),
      (''required'', JArr [JStr ''name''])])]"

definition tool_list_server_classes :: obj where
  "tool_list_server_classes = [
    (''name'', JStr ''list_server_classes''),
    (''description'', JStr ''List all available server classes (machine types) that can be used for node pools. Returns CPU, memory, and pricing information.''),
    (''inputSchema'', JObj [
      (''type'', JStr ''object''),
      (''properties'', JObj []),
      (''required'', JArr [])])]"

definition tool_get_server_class :: obj where
  "tool_get_server_class = [
    (''name'', JStr ''get_server_class''),
    (''description'', JStr ''Get detailed information about a specific server class by name.''),
    (''inputSchema'', JObj [
      (''type'', JStr ''object''),
      (''properties'', JObj [
        (''name'', JObj [
          (''type'', JStr ''string''),
          (''description'', JStr ''Server class name (e.g., gp.vs1.small-dfw, m3.medium)'')])]),
      (''required'', JArr [JStr ''name''])])]"

definition tool_list_organizations :: obj where
  "tool_list_organizations = [
    (''name'', JStr ''list_organizations''),
    (''description'', JStr ''List all organizations the user has access to. Returns organization names and their associated namespaces (org-xxx format) needed for other API calls.''),
    (''inputSchema'', JObj [
      (''type'', JStr ''object''),
      (''properties'', JObj []),
      (''required'', JArr [])])]"

definition tool_list_cloudspaces :: obj where
  "tool_list_cloudspaces = [
    (''name'', JStr ''list_cloudspaces''),
    (''description'', JStr ''List all Kubernetes cloudspaces (clusters) in a specific organization namespace.''),
    (''inputSchema'', JObj [
      (''type'', JStr ''object''),
      (''properties'', JObj [
        (''namespace'', JObj [
          (''type'', JStr ''string''),
          (''description'', JStr ''Organization namespace (e.g., org-xxxxx)'')])]),
      (''required'', JArr [JStr ''namespace''])])]"

definition tool_get_cloudspace :: obj where
  "tool_get_cloudspace = [
    (''name'', JStr ''get_cloudspace''),
    (''description'', JStr ''Get detailed information about a specific cloudspace including its status, region, and configuration.''),
    (''inputSchema'', JObj [
      (''type'', JStr ''object''),
      (''properties'', JObj [
        (''namespace'', JObj [
          (''type'', JStr ''string''),
          (''description'', JStr ''Organization namespace (e.g., org-xxxxx)'')]),
        (''name'', JObj [
          (''type'', JStr ''string''),
          (''description'', JStr ''Cloudspace name'')])]),
      (''required'', JArr [JStr ''namespace'', JStr ''name''])])]"

definition tool_create_cloudspace :: obj where
  "tool_create_cloudspace = [
    (''name'', JStr ''create_cloudspace''),
    (''description'', JStr ''Create a new Kubernetes cloudspace (cluster) in a specific region. The cloudspace will be fully managed by Rackspace Spot.''),
    (''inputSchema'', JObj [
      (''type'', JStr ''object''),
      (''properties'', JObj [
        (''namespace'', JObj [
          (''type'', JStr ''string''),
          (''description'', JStr ''Organization namespace (e.g., org-xxxxx)'')]),
        (''name'', JObj [
          (''type'', JStr ''string''),
          (''description'', JStr ''Name for the new cloudspace'')]),
        (''region'', JObj [
          (''type'', JStr ''string''),
          (''description'', JStr ''Region to deploy the cloudspace (e.g., us-central-dfw-1)'')]),
        (''haControlPlane'', JObj [
          (''type'', JStr ''boolean''),
          (''description'', JStr ''Enable high-availability control plane (default: false, costs extra)'')])]),
      (''required'', JArr [JStr ''namespace'', JStr ''name'', JStr ''region''])]),
    (''writable'', JBool True)]"

definition tool_delete_cloudspace :: obj where
  "tool_delete_cloudspace = [
    (''name'', JStr ''delete_cloudspace''),
    (''description'', JStr ''Delete a cloudspace and all its associated resources. This action is irreversible.''),
    (''inputSchema'', JObj [
      (''type'', JStr ''object''),
      (''properties'', JObj [
        (''namespace'', JObj [
          (''type'', JStr ''string''),
          (''description'', JStr ''Organization namespace (e.g., org-xxxxx)'')]),
        (''name'', JObj [
          (''type'', JStr ''string''),
          (''description'', JStr ''Cloudspace name to delete'')])]),
      (''required'', JArr [JStr ''namespace'', JStr ''name''])]),
    (''writable'', JBool True)]"

definition tool_list_spot_node_pools :: obj where
  "tool_list_spot_node_pools = [
    (''name'', JStr ''list_spot_node_pools''),
    (''description'', JStr ''List all spot node pools in a cloudspace. Spot nodes use auction-based pricing for significant cost savings.''),
    (''inputSchema'', JObj [
      (''type'', JStr ''object''),
      (''properties'', JObj [
        (''namespace'', JObj [
          (''type'', JStr ''string''),
          (''description'', JStr ''Organization namespace (e.g., org-xxxxx)'')]),
        (''cloudspaceName'', JObj [
          (''type'', JStr ''string''),
          (''description'', JStr ''Cloudspace name'')])]),
      (''required'', JArr [JStr ''namespace'', JStr ''cloudspaceName''])])]"

definition tool_get_spot_node_pool :: obj where
  "tool_get_spot_node_pool = [
    (''name'', JStr ''get_spot_node_pool''),
    (''description'', JStr ''Get detailed information about a specific spot node pool including bid price, node count, and status.''),
    (''inputSchema'', JObj [
      (''type'', JStr ''object''),
      (''properties'', JObj [
        (''namespace'', JObj [
          (''type'', JStr ''string''),
          (''description'', JStr ''Organization namespace (e.g., org-xxxxx)'')]),
        (''name'', JObj [
          (''type'', JStr ''string''),
          (''description'', JStr ''Spot node pool name'')])]),
      (''required'', JArr [JStr ''namespace'', JStr ''name''])])]"

definition tool_create_spot_node_pool :: obj where
  "tool_create_spot_node_pool = [
    (''name'', JStr ''create_spot_node_pool''),
    (''description'', JStr ''Create a new spot node pool with auction-based pricing. Set a maximum bid price per hour for significant cost savings.''),
    (''inputSchema'', JObj [
      (''type'', JStr ''object''),
      (''properties'', JObj [
        (''namespace'', JObj [
          (''type'', JStr ''string''),
          (''description'', JStr ''Organization namespace (e.g., org-xxxxx)'')]),
        (''name'', JObj [
          (''type'', JStr ''string''),
          (''description'', JStr ''Name for the new spot node pool'')]),
        (''cloudspaceName'', JObj [
          (''type'', JStr ''string''),
          (''description'', JStr ''Cloudspace to add the node pool to'')]),
        (''serverClassName'', JObj [
          (''type'', JStr ''string''),
          (''description'', JStr ''Server class for nodes (e.g., gp.vs1.small-dfw)'')]),
        (''bidPrice'', JObj [
          (''type'', JStr ''string''),
          (''description'', JStr (''Maximum bid price per hour (e.g., '' @ [CHR 0x27] @ ''0.05'' @ [CHR 0x27] @ '' for $0.05/hr)''))]),
        (''minNodes'', JObj [
          (''type'', JStr ''number''),
          (''description'', JStr ''Minimum number of nodes (default: 0)'')]),
        (''maxNodes'', JObj [
          (''type'', JStr ''number''),
          (''description'', JStr ''Maximum number of nodes for autoscaling (default: 10)'')]),
        (''desiredNodes'', JObj [
          (''type'', JStr ''number''),
          (''description'', JStr ''Initial desired number of nodes (default: 1)'')])]),
      (''required'', JArr [JStr ''namespace'', JStr ''name'', JStr ''cloudspaceName'', JStr ''serverClassName'', JStr ''bidPrice''])]),
    (''writable'', JBool True)]"

definition tool_delete_spot_node_pool :: obj where
  "tool_delete_spot_node_pool = [
    (''name'', JStr ''delete_spot_node_pool''),
    (''description'', JStr ''Delete a spot node pool from a cloudspace.''),
    (''inputSchema'', JObj [
      (''type'', JStr ''object''),
      (''properties'', JObj [
        (''namespace'', JObj [
          (''type'', JStr ''string''),
          (''description'', JStr ''Organization namespace (e.g., org-xxxxx)'')]),
        (''name'', JObj [
          (''type'', JStr ''string''),
          (''description'', JStr ''Spot node pool name to delete'')])]),
      (''required'', JArr [JStr ''namespace'', JStr ''name''])]),
    (''writable'', JBool True)]"

definition tool_list_ondemand_node_pools :: obj where
  "tool_list_ondemand_node_pools = [
    (''name'', JStr ''list_ondemand_node_pools''),
    (''description'', JStr ''List all on-demand node pools in a cloudspace. On-demand nodes have fixed pricing and guaranteed availability.''),
    (''inputSchema'', JObj [
      (''type'', JStr ''object''),
      (''properties'', JObj [
        (''namespace'', JObj [
          (''type'', JStr ''string''),
          (''description'', JStr ''Organization namespace (e.g., org-xxxxx)'')]),
        (''cloudspaceName'', JObj [
          (''type'', JStr ''string''),
          (''description'', JStr ''Cloudspace name'')])]),
      (''required'', JArr [JStr ''namespace'', JStr ''cloudspaceName''])])]"

definition tool_get_ondemand_node_pool :: obj where
  "tool_get_ondemand_node_pool = [
    (''name'', JStr ''get_ondemand_node_pool''),
    (''description'', JStr ''Get detailed information about a specific on-demand node pool.''),
    (''inputSchema'', JObj [
      (''type'', JStr ''object''),
      (''properties'', JObj [
        (''namespace'', JObj [
          (''type'', JStr ''string''),
          (''description'', JStr ''Organization namespace (e.g., org-xxxxx)'')]),
        (''name'', JObj [
          (''type'', JStr ''string''),
          (''description'', JStr ''On-demand node pool name'')])]),
      (''required'', JArr [JStr ''namespace'', JStr ''name''])])]"

definition tool_create_ondemand_node_pool :: obj where
  "tool_create_ondemand_node_pool = [
    (''name'', JStr ''create_ondemand_node_pool''),
    (''description'', JStr ''Create a new on-demand node pool with fixed pricing and guaranteed availability.''),
    (''inputSchema'', JObj [
      (''type'', JStr ''object''),
      (''properties'', JObj [
        (''namespace'', JObj [
          (''type'', JStr ''string''),
          (''description'', JStr ''Organization namespace (e.g., org-xxxxx)'')]),
        (''name'', JObj [
          (''type'', JStr ''string''),
          (''description'', JStr ''Name for the new on-demand node pool'')]),
        (''cloudspaceName'', JObj [
          (''type'', JStr ''string''),
          (''description'', JStr ''Cloudspace to add the node pool to'')]),
        (''serverClassName'', JObj [
          (''type'', JStr ''string''),
          (''description'', JStr ''Server class for nodes (e.g., gp.vs1.small-dfw)'')]),
        (''minNodes'', JObj [
          (''type'', JStr ''number''),
          (''description'', JStr ''Minimum number of nodes (default: 0)'')]),
        (''maxNodes'', JObj [
          (''type'', JStr ''number''),
          (''description'', JStr ''Maximum number of nodes for autoscaling (default: 10)'')]),
        (''desiredNodes'', JObj [
          (''type'', JStr ''number''),
          (''description'', JStr ''Initial desired number of nodes (default: 1)'')])]),
      (''required'', JArr [JStr ''namespace'', JStr ''name'', JStr ''cloudspaceName'', JStr ''serverClassName''])]),
    (''writable'', JBool True)]"

definition tool_delete_ondemand_node_pool :: obj where
  "tool_delete_ondemand_node_pool = [
    (''name'', JStr ''delete_ondemand_node_pool''),
    (''description'', JStr ''Delete an on-demand node pool from a cloudspace.''),
    (''inputSchema'', JObj [
      (''type'', JStr ''object''),
      (''properties'', JObj [
        (''namespace'', JObj [
          (''type'', JStr ''string''),
          (''description'', JStr ''Organization namespace (e.g., org-xxxxx)'')]),
        (''name'', JObj [
          (''type'', JStr ''string''),
          (''description'', JStr ''On-demand node pool name to delete'')])]),
      (''required'', JArr [JStr ''namespace'', JStr ''name''])]),
    (''writable'', JBool True)]"

definition tool_get_kubeconfig :: obj where
  "tool_get_kubeconfig = [
    (''name'', JStr ''get_kubeconfig''),
    (''description'', JStr (''Generate a kubeconfig file for accessing a cloudspace'' @ [CHR 0x27] @ ''s Kubernetes cluster with kubectl.'')),
    (''inputSchema'', JObj [
      (''type'', JStr ''object''),
      (''properties'', JObj [
        (''organizationName'', JObj [
          (''type'', JStr ''string''),
          (''description'', JStr ''Organization name (not namespace)'')]),
        (''cloudspaceName'', JObj [
          (''type'', JStr ''string''),
          (''description'', JStr ''Cloudspace name'')])]),
      (''required'', JArr [JStr ''organizationName'', JStr ''cloudspaceName''])])]"

definition tool_get_market_pricing :: obj where
  "tool_get_market_pricing = [
    (''name'', JStr ''get_market_pricing''),
    (''description'', JStr ''Get current market pricing and capacity information for all server classes across regions. Useful for determining optimal bid prices.''),
    (''inputSchema'', JObj [
      (''type'', JStr ''object''),
      (''properties'', JObj []),
      (''required'', JArr [])])]"

definition tool_get_price_history :: obj where
  "tool_get_price_history = [
    (''name'', JStr ''get_price_history''),
    (''description'', JStr ''Get historical price data for a specific server class in a region. Useful for understanding price trends.''),
    (''inputSchema'', JObj [
      (''type'', JStr ''object''),
      (''properties'', JObj [
        (''serverClass'', JObj [
          (''type'', JStr ''string''),
          (''description'', JStr ''Server class name'')]),
        (''region'', JObj [
          (''type'', JStr ''string''),
          (''description'', JStr ''Region name'')])]),
      (''required'', JArr [JStr ''serverClass'', JStr ''region''])])]"

definition tool_get_percentile_pricing :: obj where
  "tool_get_percentile_pricing = [
    (''name'', JStr ''get_percentile_pricing''),
    (''description'', JStr ''Get percentile pricing information showing price distribution for server classes. Useful for setting competitive bid prices.''),
    (''inputSchema'', JObj [
      (''type'', JStr ''object''),
      (''properties'', JObj []),
      (''required'', JArr [])])]"

definition allTools :: "obj list" where
  "allTools = [
    tool_list_regions,
    tool_get_region,
    tool_list_server_classes,
    tool_get_server_class,
    tool_list_organizations,
    tool_list_cloudspaces,
    tool_get_cloudspace,
    tool_create_cloudspace,
    tool_delete_cloudspace,
    tool_list_spot_node_pools,
    tool_get_spot_node_pool,
    tool_create_spot_node_pool,
    tool_delete_spot_node_pool,
    tool_list_ondemand_node_pools,
    tool_get_ondemand_node_pool,
    tool_create_ondemand_node_pool,
    tool_delete_ondemand_node_pool,
    tool_get_kubeconfig,
    tool_get_market_pricing,
    tool_get_price_history,
    tool_get_percentile_pricing]"

subsection \<open>Listing the tools\<close>

definition tool_name :: "obj \<Rightarrow> string" where
  \<comment> \<open>\<open>t.name\<close>; every tool of the catalog has a string there.\<close>
  "tool_name t = (case get_prop t ''name'' of Some (JStr s) \<Rightarrow> s | _ \<Rightarrow> [])"

definition listTools :: "env \<Rightarrow> obj list" where
  \<comment> \<open>The handler of \<open>ListToolsRequestSchema\<close>: writable tools are filtered out in
      read-only mode, and the writable flag is removed from every entry of the response.\<close>
  "listTools e =
     (let readOnly = isReadOnly e;
          tools = (if readOnly then filter (\<lambda>tool. \<not> truthy (get_prop tool ''writable'')) allTools
                   else allTools);
          publicTools = map (omit ''writable'') tools
      in publicTools)"

section \<open>The client (spot-client.ts)\<close>

definition AUTH_BASE_URL :: string where
  "AUTH_BASE_URL = ''https://login.spot.rackspace.com''"

definition API_BASE_URL :: string where
  "API_BASE_URL = ''https://spot.rackspace.com''"

definition CLIENT_ID :: string where
  "CLIENT_ID = ''mwG3lUMV8KyeMqHe4fJ5Bb3nM1vBvRNa''"

record TokenResponse =
  access_token :: string
  id_token :: string
  token_scope :: string
  expires_in :: int
  token_type :: string

record SpotClientConfig =
  config_refreshToken :: string
  config_baseUrl :: "string option"
  config_authUrl :: "string option"

record SpotClient =
  refreshToken :: string
  accessToken :: "string option"
  tokenExpiry :: int
  authBaseUrl :: string
  apiBaseUrl :: string

definition new_SpotClient :: "SpotClientConfig \<Rightarrow> SpotClient" where
  \<comment> \<open>The constructor; the \<open>fetch\<close> of the configuration is the network parameter below.\<close>
  "new_SpotClient config =
     \<lparr> refreshToken = config_refreshToken config,
       accessToken = None,
       tokenExpiry = 0,
       authBaseUrl = (case config_authUrl config of Some u \<Rightarrow> u | None \<Rightarrow> AUTH_BASE_URL),
       apiBaseUrl = (case config_baseUrl config of Some u \<Rightarrow> u | None \<Rightarrow> API_BASE_URL) \<rparr>"

subsection \<open>Requests, responses and the network\<close>

datatype payload =
    FormBody "(string \<times> string) list"
  | JsonBody "(string \<times> string) list"

record request =
  url :: string
  http_method :: "string option"
  headers :: "(string \<times> string) list"
  body :: "payload option"

text \<open>
  A response carries its body as \<open>response.text()\<close> reads it and as \<open>response.json()\<close>
  parses it, under the two static types the client casts the parsed body to; \<open>Inl\<close> is the
  message of the error \<open>json()\<close> rejects with on a body that is not JSON.
\<close>

record response =
  ok :: bool
  status :: nat
  body_text :: string
  body_token :: "string + TokenResponse"
  body_json :: "string + json"

datatype fetched = Rejected string | Resolved response

text \<open>
  The world outside the client: the millisecond clock \<open>Date.now()\<close> reads, and the calls of
  the fetch function so far. The fetch function itself is a parameter: for a request in a
  world it gives what the promise settles with and the milliseconds that takes.
\<close>

record world =
  clock :: int
  fetch_log :: "request list"

type_synonym network = "request \<Rightarrow> world \<Rightarrow> fetched \<times> nat"

definition customFetch :: "network \<Rightarrow> request \<Rightarrow> world \<Rightarrow> fetched \<times> world" where
  "customFetch net req w =
     (case net req w of
        (r, dt) \<Rightarrow> (r, w\<lparr> clock := clock w + int dt, fetch_log := fetch_log w @ [req] \<rparr>))"

fun digit_char :: "nat \<Rightarrow> char" where
  "digit_char n = char_of (48 + n)"

function string_of_nat :: "nat \<Rightarrow> string" where
  \<comment> \<open>A number in a template literal: its decimal digits.\<close>
  "string_of_nat n =
     (if n < 10 then [digit_char n] else string_of_nat (n div 10) @ [digit_char (n mod 10)])"
  by pat_completeness auto
termination
  by (relation "measure id") auto

declare string_of_nat.simps [simp del]

definition headers_set :: "string \<Rightarrow> string \<Rightarrow> (string \<times> string) list \<Rightarrow> (string \<times> string) list" where
  \<comment> \<open>\<open>headers.set(k, v)\<close>: the header \<open>k\<close> has the value \<open>v\<close> and no other.\<close>
  "headers_set k v hs = filter (\<lambda>h. fst h \<noteq> k) hs @ [(k, v)]"

definition token_present :: "string option \<Rightarrow> bool" where
  \<comment> \<open>The truth value of \<open>this.accessToken\<close>: \<open>null\<close> and the empty string are false.\<close>
  "token_present t = (case t of None \<Rightarrow> False | Some s \<Rightarrow> s \<noteq> [])"


subsection \<open>Authentication\<close>

text \<open>
  \<open>authenticate\<close> runs up to its first \<open>await\<close> (the request is issued), and resumes when
  the response is there. The two halves are separate definitions, so that several calls
  in flight can be interleaved; the sequential \<open>authenticate\<close> is their composition.
\<close>

definition authenticate_request :: "SpotClient \<Rightarrow> request" where
  "authenticate_request c =
     \<lparr> url = authBaseUrl c @ ''/oauth/token'',
       http_method = Some ''POST'',
       headers = [(''Content-Type'', ''application/x-www-form-urlencoded'')],
       body = Some (FormBody [
         (''grant_type'', ''refresh_token''),
         (''client_id'', CLIENT_ID),
         (''refresh_token'', refreshToken c)]) \<rparr>"

definition authenticate_resume :: "fetched \<Rightarrow> SpotClient \<Rightarrow> world \<Rightarrow> (string + unit) \<times> SpotClient" where
  \<comment> \<open>The client and the clock are those of the moment the response arrives.\<close>
  "authenticate_resume r c w =
     (case r of
        Rejected msg \<Rightarrow> (Inl msg, c)
      | Resolved resp \<Rightarrow>
          if \<not> ok resp then
            (Inl (''Authentication failed: '' @ string_of_nat (status resp) @ '' - '' @ body_text resp), c)
          else
            (case body_token resp of
               Inl msg \<Rightarrow> (Inl msg, c)
             | Inr data \<Rightarrow>
                 (Inr (), c\<lparr> accessToken := Some (id_token data),
                             tokenExpiry := clock w + expires_in data * 1000 \<rparr>)))"

definition authenticate :: "network \<Rightarrow> SpotClient \<Rightarrow> world \<Rightarrow> (string + unit) \<times> SpotClient \<times> world" where
  "authenticate net c w =
     (case customFetch net (authenticate_request c) w of
        (r, w') \<Rightarrow> (case authenticate_resume r c w' of (res, c') \<Rightarrow> (res, c', w')))"

definition session_valid :: "SpotClient \<Rightarrow> int \<Rightarrow> bool" where
  \<comment> \<open>Check if token is still valid (with 60s buffer).\<close>
  "session_valid c now = (token_present (accessToken c) \<and> now < tokenExpiry c - 60000)"

definition ensureAuthenticated :: "network \<Rightarrow> SpotClient \<Rightarrow> world \<Rightarrow> (string + unit) \<times> SpotClient \<times> world" where
  "ensureAuthenticated net c w =
     (if session_valid c (clock w) then (Inr (), c, w) else authenticate net c w)"

subsection \<open>The request middleware and the calls that fetch directly\<close>

definition authMiddleware :: "network \<Rightarrow> SpotClient \<Rightarrow> world \<Rightarrow> request \<Rightarrow> (string + request) \<times> SpotClient \<times> world" where
  \<comment> \<open>\<open>onRequest\<close>: \<open>Inl\<close> when \<open>ensureAuthenticated\<close> throws, and the request is not sent.\<close>
  "authMiddleware net c w req =
     (if str_includes (url req) ''/oauth/token'' \<or> str_includes (url req) ''/generate-kubeconfig''
      then (Inr req, c, w)
      else
        (case ensureAuthenticated net c w of
           (Inl msg, c', w') \<Rightarrow> (Inl msg, c', w')
         | (Inr _, c', w') \<Rightarrow>
             (case accessToken c' of
                None \<Rightarrow> (Inr req, c', w')
              | Some t \<Rightarrow>
                  if t \<noteq> [] then
                    (Inr (req\<lparr> headers := headers_set ''Authorization'' (''Bearer '' @ t) (headers req) \<rparr>), c', w')
                  else (Inr req, c', w'))))"






section \<open>The server: calling a tool (index.ts)\<close>

definition getRefreshToken :: "env \<Rightarrow> string + string" where
  \<comment> \<open>Get refresh token from environment; \<open>!token\<close> holds of an unset and of an empty variable.\<close>
  "getRefreshToken e =
     (case e ''RACKSPACE_SPOT_REFRESH_TOKEN'' of
        None \<Rightarrow> Inl (''RACKSPACE_SPOT_REFRESH_TOKEN environment variable is required. ''
                      @ ''Get your refresh token from https://spot.rackspace.com/ui/api-access/terraform'')
      | Some token \<Rightarrow>
          if token = [] then
            Inl (''RACKSPACE_SPOT_REFRESH_TOKEN environment variable is required. ''
                 @ ''Get your refresh token from https://spot.rackspace.com/ui/api-access/terraform'')
          else Inr token)"

definition getClient :: "env \<Rightarrow> SpotClient option \<Rightarrow> string + SpotClient" where
  \<comment> \<open>The client is created at the first call that needs it, and kept.\<close>
  "getClient e client =
     (case client of
        Some c \<Rightarrow> Inr c
      | None \<Rightarrow>
          (case getRefreshToken e of
             Inl msg \<Rightarrow> Inl msg
           | Inr token \<Rightarrow>
               Inr (new_SpotClient \<lparr> config_refreshToken = token, config_baseUrl = None, config_authUrl = None \<rparr>)))"

text \<open>
  A call of a method of the client: its name and its arguments in the order of the source,
  the fields of an object argument in their order. An argument is \<open>None\<close> when the tool's
  arguments do not have the property (\<open>undefined\<close>).
\<close>

type_synonym method_call = "string \<times> json option list"

definition dispatch :: "string \<Rightarrow> obj option \<Rightarrow> method_call option" where
  \<comment> \<open>The \<open>switch (name)\<close> of the handler; \<open>None\<close> is its \<open>default\<close> case.\<close>
  "dispatch name args =
     (if name = ''list_regions'' then Some (''listRegions'', [])
      else if name = ''get_region'' then Some (''getRegion'', [optional_prop args ''name''])
      else if name = ''list_server_classes'' then Some (''listServerClasses'', [])
      else if name = ''get_server_class'' then Some (''getServerClass'', [optional_prop args ''name''])
      else if name = ''list_organizations'' then Some (''listOrganizations'', [])
      else if name = ''list_cloudspaces'' then
        Some (''listCloudspaces'', [optional_prop args ''namespace''])
      else if name = ''get_cloudspace'' then
        Some (''getCloudspace'', [optional_prop args ''namespace'', optional_prop args ''name''])
      else if name = ''create_cloudspace'' then
        Some (''createCloudspace'',
          [optional_prop args ''namespace'', optional_prop args ''name'', optional_prop args ''region'',
           optional_prop args ''haControlPlane''])
      else if name = ''delete_cloudspace'' then
        Some (''deleteCloudspace'', [optional_prop args ''namespace'', optional_prop args ''name''])
      else if name = ''list_spot_node_pools'' then
        Some (''listSpotNodePools'', [optional_prop args ''namespace'', optional_prop args ''cloudspaceName''])
      else if name = ''get_spot_node_pool'' then
        Some (''getSpotNodePool'', [optional_prop args ''namespace'', optional_prop args ''name''])
      else if name = ''create_spot_node_pool'' then
        Some (''createSpotNodePool'',
          [optional_prop args ''namespace'', optional_prop args ''name'',
           optional_prop args ''cloudspaceName'', optional_prop args ''serverClassName'',
           optional_prop args ''bidPrice'', optional_prop args ''minNodes'',
           optional_prop args ''maxNodes'', optional_prop args ''desiredNodes''])
      else if name = ''delete_spot_node_pool'' then
        Some (''deleteSpotNodePool'', [optional_prop args ''namespace'', optional_prop args ''name''])
      else if name = ''list_ondemand_node_pools'' then
        Some (''listOnDemandNodePools'', [optional_prop args ''namespace'', optional_prop args ''cloudspaceName''])
      else if name = ''get_ondemand_node_pool'' then
        Some (''getOnDemandNodePool'', [optional_prop args ''namespace'', optional_prop args ''name''])
      else if name = ''create_ondemand_node_pool'' then
        Some (''createOnDemandNodePool'',
          [optional_prop args ''namespace'', optional_prop args ''name'',
           optional_prop args ''cloudspaceName'', optional_prop args ''serverClassName'',
           optional_prop args ''minNodes'', optional_prop args ''maxNodes'',
           optional_prop args ''desiredNodes''])
      else if name = ''delete_ondemand_node_pool'' then
        Some (''deleteOnDemandNodePool'', [optional_prop args ''namespace'', optional_prop args ''name''])
      else if name = ''get_kubeconfig'' then
        Some (''generateKubeconfig'', [optional_prop args ''organizationName'', optional_prop args ''cloudspaceName''])
      else if name = ''get_market_pricing'' then Some (''getMarketPriceCapacity'', [])
      else if name = ''get_price_history'' then
        Some (''getPriceHistory'', [optional_prop args ''serverClass'', optional_prop args ''region''])
      else if name = ''get_percentile_pricing'' then Some (''getPercentileInformation'', [])
      else None)"

record TextContent =
  content_type :: string
  content_text :: string

record CallToolResult =
  content :: "TextContent list"
  isError :: bool

text \<open>
  The methods of the client are a parameter of the handler: for a call and the client they
  give the value the promise resolves with, or the message of the error it rejects with,
  and the client afterwards. What the handler answers comes with the method it called, if
  any, and with the client the server holds afterwards.
\<close>

type_synonym methods = "method_call \<Rightarrow> SpotClient \<Rightarrow> (string + json) \<times> SpotClient"

record outcome =
  answer :: CallToolResult
  invoked :: "method_call option"
  held_client :: "SpotClient option"

definition error_result :: "string \<Rightarrow> CallToolResult" where
  "error_result msg = \<lparr> content = [\<lparr> content_type = ''text'', content_text = msg \<rparr>], isError = True \<rparr>"

definition callTool :: "env \<Rightarrow> methods \<Rightarrow> (json \<Rightarrow> string) \<Rightarrow> SpotClient option \<Rightarrow> string \<Rightarrow> obj option \<Rightarrow> outcome" where
  \<comment> \<open>The handler of \<open>CallToolRequestSchema\<close>; \<open>stringify r\<close> is \<open>JSON.stringify(r, null, 2)\<close>.\<close>
  "callTool e methods stringify client name args =
     (if isReadOnly e \<and> name \<in> set WRITABLE_TOOLS then
        \<lparr> answer = error_result (''Error: Tool '' @ [CHR 0x22] @ name @ [CHR 0x22]
                   @ '' is not available in read-only mode. ''
                   @ ''Set RACKSPACE_SPOT_READ_ONLY=false to enable write operations.''),
          invoked = None,
          held_client = client \<rparr>
      else
        (case getClient e client of
           Inl message \<Rightarrow>
             \<lparr> answer = error_result (''Error: '' @ message), invoked = None, held_client = client \<rparr>
         | Inr spotClient \<Rightarrow>
             (case dispatch name args of
                None \<Rightarrow>
                  \<lparr> answer = error_result (''Error: '' @ ''Unknown tool: '' @ name),
                    invoked = None,
                    held_client = Some spotClient \<rparr>
              | Some call \<Rightarrow>
                  (case methods call spotClient of
                     (Inl message, c') \<Rightarrow>
                       \<lparr> answer = error_result (''Error: '' @ message),
                         invoked = Some call,
                         held_client = Some c' \<rparr>
                   | (Inr result, c') \<Rightarrow>
                       \<lparr> answer = \<lparr> content = [\<lparr> content_type = ''text'', content_text = stringify result \<rparr>],
                                    isError = False \<rparr>,
                         invoked = Some call,
                         held_client = Some c' \<rparr>))))"

record server =
  server_client :: "SpotClient option"
  startup_message :: string

definition main :: "env \<Rightarrow> string + unit \<Rightarrow> string + server" where
  \<comment> \<open>Create and run the server. \<open>connect\<close> is what \<open>server.connect(transport)\<close> settles with;
      \<open>Inl\<close> is the error \<open>main().catch\<close> reports as fatal before \<open>process.exit(1)\<close>.\<close>
  "main e connect =
     (case connect of
        Inl err \<Rightarrow> Inl err
      | Inr _ \<Rightarrow>
          (let mode = (if isReadOnly e then ''read-only'' else ''read-write'')
           in Inr \<lparr> server_client = None,
                    startup_message = ''Rackspace Spot MCP server running on stdio ('' @ mode @ '' mode)'' \<rparr>))"

section \<open>Calls of \<open>ensureAuthenticated\<close> in flight together\<close>

text \<open>
  JavaScript runs one task at a time, and a task runs until it awaits. A call of
  \<open>ensureAuthenticated\<close> is two tasks: the first tests the session and, where it is not
  valid, issues the token request of \<open>authenticate\<close> and suspends; the second runs when
  the response has arrived and been read, and stores the session or throws. Between the
  two, other callers run. The events of such a run are the invocation by a caller, the
  passing of time, and the arrival of the response to a caller's request.
\<close>

datatype event =
    Invoke nat
  | Tick nat
  | Arrive nat fetched

record flight =
  the_client :: SpotClient
  the_world :: world
  waiting :: "nat list"
  observed :: "(nat \<times> (string + unit)) list"

fun step :: "event \<Rightarrow> flight \<Rightarrow> flight" where
  "step (Invoke i) s =
     (if session_valid (the_client s) (clock (the_world s)) then
        s\<lparr> observed := observed s @ [(i, Inr ())] \<rparr>
      else
        s\<lparr> the_world := (the_world s)\<lparr> fetch_log := fetch_log (the_world s)
                                            @ [authenticate_request (the_client s)] \<rparr>,
           waiting := waiting s @ [i] \<rparr>)"
| "step (Tick dt) s =
     s\<lparr> the_world := (the_world s)\<lparr> clock := clock (the_world s) + int dt \<rparr> \<rparr>"
| "step (Arrive i r) s =
     (if i \<in> set (waiting s) then
        (case authenticate_resume r (the_client s) (the_world s) of
           (res, c') \<Rightarrow>
             s\<lparr> the_client := c',
                waiting := removeAll i (waiting s),
                observed := observed s @ [(i, res)] \<rparr>)
      else s)"

fun run :: "event list \<Rightarrow> flight \<Rightarrow> flight" where
  "run [] s = s"
| "run (ev # evs) s = run evs (step ev s)"

fun callers :: "event list \<Rightarrow> nat list" where
  \<comment> \<open>The callers that invoke in a list of events, in order.\<close>
  "callers [] = []"
| "callers (Invoke i # evs) = i # callers evs"
| "callers (Tick dt # evs) = callers evs"
| "callers (Arrive i r # evs) = callers evs"

fun no_arrival :: "event list \<Rightarrow> bool" where
  "no_arrival [] = True"
| "no_arrival (Invoke i # evs) = no_arrival evs"
| "no_arrival (Tick dt # evs) = no_arrival evs"
| "no_arrival (Arrive i r # evs) = False"

section \<open>Example values\<close>

text \<open>
  A client as the unit tests create it, responses of the token endpoint as their mock
  fetch gives them, and a network that answers every request with one response after 20
  milliseconds.
\<close>

definition example_client :: SpotClient where
  "example_client =
     new_SpotClient \<lparr> config_refreshToken = ''test-refresh-token'', config_baseUrl = None, config_authUrl = None \<rparr>"

definition token_granted :: "string \<Rightarrow> int \<Rightarrow> response" where
  "token_granted tok secs =
     \<lparr> ok = True, status = 200, body_text = [],
       body_token = Inr \<lparr> access_token = ''mock-access-token'', id_token = tok, token_scope = [],
                          expires_in = secs, token_type = ''Bearer'' \<rparr>,
       body_json = Inr (JObj [(''id_token'', JStr tok), (''access_token'', JStr ''mock-access-token''),
                              (''expires_in'', JNum secs), (''token_type'', JStr ''Bearer'')]) \<rparr>"

definition token_refused :: response where
  "token_refused =
     \<lparr> ok = False, status = 401, body_text = ''Unauthorized'',
       body_token = Inl ''Unexpected token'', body_json = Inl ''Unexpected token'' \<rparr>"

definition example_network :: "response \<Rightarrow> network" where
  "example_network resp = (\<lambda>req w. (Resolved resp, 20))"

definition regions_request :: request where
  \<comment> \<open>The request of \<open>listRegions\<close> as it reaches the middleware.\<close>
  "regions_request =
     \<lparr> url = API_BASE_URL @ ''/apis/ngpc.rxt.io/v1/regions'', http_method = Some ''GET'',
       headers = [], body = None \<rparr>"

section \<open>Facts about the catalog\<close>

lemmas tool_defs =
  tool_list_regions_def
  tool_get_region_def
  tool_list_server_classes_def
  tool_get_server_class_def
  tool_list_organizations_def
  tool_list_cloudspaces_def
  tool_get_cloudspace_def
  tool_create_cloudspace_def
  tool_delete_cloudspace_def
  tool_list_spot_node_pools_def
  tool_get_spot_node_pool_def
  tool_create_spot_node_pool_def
  tool_delete_spot_node_pool_def
  tool_list_ondemand_node_pools_def
  tool_get_ondemand_node_pool_def
  tool_create_ondemand_node_pool_def
  tool_delete_ondemand_node_pool_def
  tool_get_kubeconfig_def
  tool_get_market_pricing_def
  tool_get_price_history_def
  tool_get_percentile_pricing_def

lemma tool_names:
  "tool_name tool_list_regions = ''list_regions''"
  "tool_name tool_get_region = ''get_region''"
  "tool_name tool_list_server_classes = ''list_server_classes''"
  "tool_name tool_get_server_class = ''get_server_class''"
  "tool_name tool_list_organizations = ''list_organizations''"
  "tool_name tool_list_cloudspaces = ''list_cloudspaces''"
  "tool_name tool_get_cloudspace = ''get_cloudspace''"
  "tool_name tool_create_cloudspace = ''create_cloudspace''"
  "tool_name tool_delete_cloudspace = ''delete_cloudspace''"
  "tool_name tool_list_spot_node_pools = ''list_spot_node_pools''"
  "tool_name tool_get_spot_node_pool = ''get_spot_node_pool''"
  "tool_name tool_create_spot_node_pool = ''create_spot_node_pool''"
  "tool_name tool_delete_spot_node_pool = ''delete_spot_node_pool''"
  "tool_name tool_list_ondemand_node_pools = ''list_ondemand_node_pools''"
  "tool_name tool_get_ondemand_node_pool = ''get_ondemand_node_pool''"
  "tool_name tool_create_ondemand_node_pool = ''create_ondemand_node_pool''"
  "tool_name tool_delete_ondemand_node_pool = ''delete_ondemand_node_pool''"
  "tool_name tool_get_kubeconfig = ''get_kubeconfig''"
  "tool_name tool_get_market_pricing = ''get_market_pricing''"
  "tool_name tool_get_price_history = ''get_price_history''"
  "tool_name tool_get_percentile_pricing = ''get_percentile_pricing''"
  by (simp_all add: tool_name_def get_prop_def tool_defs)

lemma tool_writable:
  "truthy (get_prop tool_list_regions ''writable'') = False"
  "truthy (get_prop tool_get_region ''writable'') = False"
  "truthy (get_prop tool_list_server_classes ''writable'') = False"
  "truthy (get_prop tool_get_server_class ''writable'') = False"
  "truthy (get_prop tool_list_organizations ''writable'') = False"
  "truthy (get_prop tool_list_cloudspaces ''writable'') = False"
  "truthy (get_prop tool_get_cloudspace ''writable'') = False"
  "truthy (get_prop tool_create_cloudspace ''writable'') = True"
  "truthy (get_prop tool_delete_cloudspace ''writable'') = True"
  "truthy (get_prop tool_list_spot_node_pools ''writable'') = False"
  "truthy (get_prop tool_get_spot_node_pool ''writable'') = False"
  "truthy (get_prop tool_create_spot_node_pool ''writable'') = True"
  "truthy (get_prop tool_delete_spot_node_pool ''writable'') = True"
  "truthy (get_prop tool_list_ondemand_node_pools ''writable'') = False"
  "truthy (get_prop tool_get_ondemand_node_pool ''writable'') = False"
  "truthy (get_prop tool_create_ondemand_node_pool ''writable'') = True"
  "truthy (get_prop tool_delete_ondemand_node_pool ''writable'') = True"
  "truthy (get_prop tool_get_kubeconfig ''writable'') = False"
  "truthy (get_prop tool_get_market_pricing ''writable'') = False"
  "truthy (get_prop tool_get_price_history ''writable'') = False"
  "truthy (get_prop tool_get_percentile_pricing ''writable'') = False"
  by (simp_all add: get_prop_def tool_defs)

lemma catalog_names:
  "map tool_name allTools =
     [''list_regions'', ''get_region'', ''list_server_classes'', ''get_server_class'',
      ''list_organizations'', ''list_cloudspaces'', ''get_cloudspace'', ''create_cloudspace'',
      ''delete_cloudspace'', ''list_spot_node_pools'', ''get_spot_node_pool'',
      ''create_spot_node_pool'', ''delete_spot_node_pool'', ''list_ondemand_node_pools'',
      ''get_ondemand_node_pool'', ''create_ondemand_node_pool'', ''delete_ondemand_node_pool'',
      ''get_kubeconfig'', ''get_market_pricing'', ''get_price_history'', ''get_percentile_pricing'']"
  by (simp add: allTools_def tool_names)

lemma read_only_tools:
  "filter (\<lambda>tool. \<not> truthy (get_prop tool ''writable'')) allTools =
     [tool_list_regions, tool_get_region, tool_list_server_classes, tool_get_server_class,
      tool_list_organizations, tool_list_cloudspaces, tool_get_cloudspace,
      tool_list_spot_node_pools, tool_get_spot_node_pool, tool_list_ondemand_node_pools,
      tool_get_ondemand_node_pool, tool_get_kubeconfig, tool_get_market_pricing,
      tool_get_price_history, tool_get_percentile_pricing]"
  by (simp add: allTools_def tool_writable)

lemma writable_tools:
  "filter (\<lambda>tool. truthy (get_prop tool ''writable'')) allTools =
     [tool_create_cloudspace, tool_delete_cloudspace, tool_create_spot_node_pool,
      tool_delete_spot_node_pool, tool_create_ondemand_node_pool, tool_delete_ondemand_node_pool]"
  by (simp add: allTools_def tool_writable)

lemma writable_names:
  "map tool_name (filter (\<lambda>tool. truthy (get_prop tool ''writable'')) allTools) = WRITABLE_TOOLS"
  by (simp add: writable_tools tool_names WRITABLE_TOOLS_def)

lemma get_prop_omit: "get_prop (omit k ob) k' = (if k' = k then None else get_prop ob k')"
  by (induction ob) (auto simp: get_prop_def omit_def)

lemma tool_name_omit: "tool_name (omit ''writable'' t) = tool_name t"
  by (simp add: tool_name_def get_prop_omit)

lemma listTools_read_only:
  "isReadOnly e \<Longrightarrow>
   listTools e = map (omit ''writable'') (filter (\<lambda>tool. \<not> truthy (get_prop tool ''writable'')) allTools)"
  by (simp add: listTools_def)

lemma listTools_read_write:
  "\<not> isReadOnly e \<Longrightarrow> listTools e = map (omit ''writable'') allTools"
  by (simp add: listTools_def)

lemma read_only_names:
  "isReadOnly e \<Longrightarrow>
   map tool_name (listTools e) =
     [''list_regions'', ''get_region'', ''list_server_classes'', ''get_server_class'',
      ''list_organizations'', ''list_cloudspaces'', ''get_cloudspace'', ''list_spot_node_pools'',
      ''get_spot_node_pool'', ''list_ondemand_node_pools'', ''get_ondemand_node_pool'',
      ''get_kubeconfig'', ''get_market_pricing'', ''get_price_history'', ''get_percentile_pricing'']"
  by (simp add: listTools_read_only read_only_tools tool_name_omit tool_names)

lemma writable_tool_in_gate:
  assumes "t \<in> set allTools" and "truthy (get_prop t ''writable'')"
  shows "tool_name t \<in> set WRITABLE_TOOLS"
proof -
  from assms have "t \<in> set (filter (\<lambda>tool. truthy (get_prop tool ''writable'')) allTools)"
    by simp
  then have "tool_name t \<in> tool_name ` set (filter (\<lambda>tool. truthy (get_prop tool ''writable'')) allTools)"
    by (rule imageI)
  then show ?thesis
    by (simp only: set_map [symmetric] writable_names)
qed

lemma gate_not_listed:
  "isReadOnly e \<Longrightarrow> n \<in> set WRITABLE_TOOLS \<Longrightarrow> n \<notin> set (map tool_name (listTools e))"
  by (auto simp: read_only_names WRITABLE_TOOLS_def)

lemma str_includes_prefix: "str_includes (pat @ b) pat"
proof (cases "pat @ b")
  case Nil
  then show ?thesis by simp
next
  case (Cons c cs)
  then have "take (length pat) (c # cs) = pat"
    by (metis append_eq_conv_conj)
  then show ?thesis
    unfolding Cons by simp
qed

lemma str_includes_append: "str_includes (a @ pat @ b) pat"
  by (induction a) (simp_all add: str_includes_prefix)

lemma is_read_only_true: "isReadOnly [''RACKSPACE_SPOT_READ_ONLY'' \<mapsto> ''true'']"
  by (simp add: isReadOnly_def)

lemma dispatch_unknown:
  "name \<notin> set (map tool_name allTools) \<Longrightarrow> dispatch name args = None"
  by (simp add: catalog_names dispatch_def)

lemma dispatch_catalog:
  "name \<in> set (map tool_name allTools) \<Longrightarrow> dispatch name args \<noteq> None"
  unfolding catalog_names by (auto simp: dispatch_def)

lemma callTool_blocked:
  "isReadOnly e \<Longrightarrow> name \<in> set WRITABLE_TOOLS \<Longrightarrow>
   callTool e methods stringify client name args =
     \<lparr> answer = error_result (''Error: Tool '' @ [CHR 0x22] @ name @ [CHR 0x22]
                @ '' is not available in read-only mode. ''
                @ ''Set RACKSPACE_SPOT_READ_ONLY=false to enable write operations.''),
       invoked = None,
       held_client = client \<rparr>"
  by (simp add: callTool_def)

lemma callTool_passed:
  "\<not> (isReadOnly e \<and> name \<in> set WRITABLE_TOOLS) \<Longrightarrow> getClient e client = Inr c \<Longrightarrow>
   invoked (callTool e methods stringify client name args) = dispatch name args"
  by (auto simp: callTool_def split: option.splits prod.splits sum.splits)

section \<open>The claims about the catalog and read-only mode\<close>

text \<open>
  C10. The names the handler of tool calls blocks in read-only mode (\<open>WRITABLE_TOOLS\<close>) are
  exactly the names of the catalog entries that carry the writable flag. So, in read-only
  mode, a name passes the test of the gate exactly when it is a name of the catalog that
  the listing leaves out; and, with a client at hand, the call of a catalog tool reaches no
  method of the client exactly when the listing leaves the tool out.
\<close>

theorem gate_agrees_with_listing:
  assumes "isReadOnly e"
  shows "set WRITABLE_TOOLS = tool_name ` {t \<in> set allTools. truthy (get_prop t ''writable'')}
    \<and> (\<forall>name. (isReadOnly e \<and> name \<in> set WRITABLE_TOOLS)
          = (name \<in> set (map tool_name allTools) \<and> name \<notin> set (map tool_name (listTools e))))
    \<and> (\<forall>name \<in> set (map tool_name allTools). \<forall>c. getClient e client = Inr c \<longrightarrow>
          (invoked (callTool e methods stringify client name args) = None)
          = (name \<notin> set (map tool_name (listTools e))))"
proof (intro conjI allI ballI impI)
  have "tool_name ` {t \<in> set allTools. truthy (get_prop t ''writable'')}
        = set (map tool_name (filter (\<lambda>tool. truthy (get_prop tool ''writable'')) allTools))"
    by (simp only: set_map set_filter)
  then show "set WRITABLE_TOOLS = tool_name ` {t \<in> set allTools. truthy (get_prop t ''writable'')}"
    by (simp only: writable_names)
next
  fix name
  show "(isReadOnly e \<and> name \<in> set WRITABLE_TOOLS)
        = (name \<in> set (map tool_name allTools) \<and> name \<notin> set (map tool_name (listTools e)))"
    using assms unfolding catalog_names read_only_names [OF assms] WRITABLE_TOOLS_def
    by auto
next
  fix name c
  assume cat: "name \<in> set (map tool_name allTools)" and cl: "getClient e client = Inr c"
  show "(invoked (callTool e methods stringify client name args) = None)
        = (name \<notin> set (map tool_name (listTools e)))"
  proof (cases "name \<in> set WRITABLE_TOOLS")
    case True
    with assms show ?thesis
      by (simp add: callTool_blocked gate_not_listed del: set_map)
  next
    case False
    then have "invoked (callTool e methods stringify client name args) = dispatch name args"
      using cl by (simp add: callTool_passed)
    moreover have "dispatch name args \<noteq> None"
      using cat by (rule dispatch_catalog)
    moreover have "name \<in> set (map tool_name (listTools e))"
      using cat False unfolding catalog_names read_only_names [OF assms] WRITABLE_TOOLS_def
      by auto
    ultimately show ?thesis by simp
  qed
qed

theorem gate_agrees_with_listing_witness:
  "isReadOnly [''RACKSPACE_SPOT_READ_ONLY'' \<mapsto> ''true'']
   \<and> ''delete_cloudspace'' \<in> set WRITABLE_TOOLS
   \<and> ''delete_cloudspace'' \<in> set (map tool_name allTools)
   \<and> ''delete_cloudspace'' \<notin> set (map tool_name (listTools [''RACKSPACE_SPOT_READ_ONLY'' \<mapsto> ''true'']))
   \<and> ''get_region'' \<notin> set WRITABLE_TOOLS
   \<and> ''get_region'' \<in> set (map tool_name (listTools [''RACKSPACE_SPOT_READ_ONLY'' \<mapsto> ''true'']))"
proof -
  note listing = gate_agrees_with_listing [OF is_read_only_true, THEN conjunct2, THEN conjunct1]
  from listing [THEN spec, of "''delete_cloudspace''"] listing [THEN spec, of "''get_region''"]
  show ?thesis
    by (simp add: is_read_only_true WRITABLE_TOOLS_def catalog_names)
qed

lemma tool_keys:
  "map fst (omit ''writable'' tool_list_regions) = [''name'', ''description'', ''inputSchema'']"
  "map fst (omit ''writable'' tool_get_region) = [''name'', ''description'', ''inputSchema'']"
  "map fst (omit ''writable'' tool_list_server_classes) = [''name'', ''description'', ''inputSchema'']"
  "map fst (omit ''writable'' tool_get_server_class) = [''name'', ''description'', ''inputSchema'']"
  "map fst (omit ''writable'' tool_list_organizations) = [''name'', ''description'', ''inputSchema'']"
  "map fst (omit ''writable'' tool_list_cloudspaces) = [''name'', ''description'', ''inputSchema'']"
  "map fst (omit ''writable'' tool_get_cloudspace) = [''name'', ''description'', ''inputSchema'']"
  "map fst (omit ''writable'' tool_create_cloudspace) = [''name'', ''description'', ''inputSchema'']"
  "map fst (omit ''writable'' tool_delete_cloudspace) = [''name'', ''description'', ''inputSchema'']"
  "map fst (omit ''writable'' tool_list_spot_node_pools) = [''name'', ''description'', ''inputSchema'']"
  "map fst (omit ''writable'' tool_get_spot_node_pool) = [''name'', ''description'', ''inputSchema'']"
  "map fst (omit ''writable'' tool_create_spot_node_pool) = [''name'', ''description'', ''inputSchema'']"
  "map fst (omit ''writable'' tool_delete_spot_node_pool) = [''name'', ''description'', ''inputSchema'']"
  "map fst (omit ''writable'' tool_list_ondemand_node_pools) = [''name'', ''description'', ''inputSchema'']"
  "map fst (omit ''writable'' tool_get_ondemand_node_pool) = [''name'', ''description'', ''inputSchema'']"
  "map fst (omit ''writable'' tool_create_ondemand_node_pool) = [''name'', ''description'', ''inputSchema'']"
  "map fst (omit ''writable'' tool_delete_ondemand_node_pool) = [''name'', ''description'', ''inputSchema'']"
  "map fst (omit ''writable'' tool_get_kubeconfig) = [''name'', ''description'', ''inputSchema'']"
  "map fst (omit ''writable'' tool_get_market_pricing) = [''name'', ''description'', ''inputSchema'']"
  "map fst (omit ''writable'' tool_get_price_history) = [''name'', ''description'', ''inputSchema'']"
  "map fst (omit ''writable'' tool_get_percentile_pricing) = [''name'', ''description'', ''inputSchema'']"
  by (simp_all add: omit_def tool_defs)

lemma tool_flags:
  "get_prop tool_list_regions ''writable'' = None"
  "get_prop tool_get_region ''writable'' = None"
  "get_prop tool_list_server_classes ''writable'' = None"
  "get_prop tool_get_server_class ''writable'' = None"
  "get_prop tool_list_organizations ''writable'' = None"
  "get_prop tool_list_cloudspaces ''writable'' = None"
  "get_prop tool_get_cloudspace ''writable'' = None"
  "get_prop tool_create_cloudspace ''writable'' = Some (JBool True)"
  "get_prop tool_delete_cloudspace ''writable'' = Some (JBool True)"
  "get_prop tool_list_spot_node_pools ''writable'' = None"
  "get_prop tool_get_spot_node_pool ''writable'' = None"
  "get_prop tool_create_spot_node_pool ''writable'' = Some (JBool True)"
  "get_prop tool_delete_spot_node_pool ''writable'' = Some (JBool True)"
  "get_prop tool_list_ondemand_node_pools ''writable'' = None"
  "get_prop tool_get_ondemand_node_pool ''writable'' = None"
  "get_prop tool_create_ondemand_node_pool ''writable'' = Some (JBool True)"
  "get_prop tool_delete_ondemand_node_pool ''writable'' = Some (JBool True)"
  "get_prop tool_get_kubeconfig ''writable'' = None"
  "get_prop tool_get_market_pricing ''writable'' = None"
  "get_prop tool_get_price_history ''writable'' = None"
  "get_prop tool_get_percentile_pricing ''writable'' = None"
  by (simp_all add: get_prop_def tool_defs)

lemma catalog_keys:
  "t \<in> set allTools \<Longrightarrow> map fst (omit ''writable'' t) = [''name'', ''description'', ''inputSchema'']"
  by (auto simp: allTools_def tool_keys)

lemma catalog_flags:
  "t \<in> set allTools \<Longrightarrow>
   (tool_name t \<in> set WRITABLE_TOOLS) = (get_prop t ''writable'' = Some (JBool True))"
  unfolding allTools_def WRITABLE_TOOLS_def
  by (auto simp: tool_names tool_flags)

lemma listTools_from_catalog:
  "p \<in> set (listTools e) \<Longrightarrow> \<exists>t \<in> set allTools. p = omit ''writable'' t"
  by (cases "isReadOnly e") (auto simp: listTools_read_only listTools_read_write)

text \<open>
  C1. In read-only mode, for every tool of the catalog that carries the writable flag and
  for all arguments: the listing has no entry of the tool's name, and calling the tool by
  name answers an error result whose text names the tool and says that it is not
  available in read-only mode. No method of the client is called (the answer is the same
  whatever the methods are), and the server holds the client it held before.
\<close>

theorem read_only_blocks_writable_tools:
  assumes "isReadOnly e" and "t \<in> set allTools" and "truthy (get_prop t ''writable'')"
  shows "tool_name t \<notin> set (map tool_name (listTools e))
    \<and> callTool e methods stringify client (tool_name t) args =
        \<lparr> answer =
            \<lparr> content = [\<lparr> content_type = ''text'',
                           content_text = ''Error: Tool '' @ [CHR 0x22] @ tool_name t @ [CHR 0x22]
                             @ '' is not available in read-only mode. ''
                             @ ''Set RACKSPACE_SPOT_READ_ONLY=false to enable write operations.'' \<rparr>],
              isError = True \<rparr>,
          invoked = None,
          held_client = client \<rparr>"
proof -
  have gate: "tool_name t \<in> set WRITABLE_TOOLS"
    using assms(2,3) by (rule writable_tool_in_gate)
  show ?thesis
    using gate_not_listed [OF assms(1) gate] callTool_blocked [OF assms(1) gate]
    by (simp add: error_result_def)
qed

theorem read_only_blocks_writable_tools_witness:
  "isReadOnly [''RACKSPACE_SPOT_READ_ONLY'' \<mapsto> ''true'']
   \<and> tool_create_cloudspace \<in> set allTools
   \<and> truthy (get_prop tool_create_cloudspace ''writable'')
   \<and> ''create_cloudspace'' \<notin> set (map tool_name (listTools [''RACKSPACE_SPOT_READ_ONLY'' \<mapsto> ''true'']))
   \<and> callTool [''RACKSPACE_SPOT_READ_ONLY'' \<mapsto> ''true''] (\<lambda>call c. (Inr JNull, c)) (\<lambda>r. ''null'') None
        ''create_cloudspace'' (Some [(''namespace'', JStr ''org-test'')]) =
        \<lparr> answer =
            \<lparr> content = [\<lparr> content_type = ''text'',
                           content_text = ''Error: Tool '' @ [CHR 0x22] @ ''create_cloudspace'' @ [CHR 0x22]
                             @ '' is not available in read-only mode. ''
                             @ ''Set RACKSPACE_SPOT_READ_ONLY=false to enable write operations.'' \<rparr>],
              isError = True \<rparr>,
          invoked = None,
          held_client = None \<rparr>"
proof -
  have member: "tool_create_cloudspace \<in> set allTools"
    by (simp add: allTools_def)
  have flag: "truthy (get_prop tool_create_cloudspace ''writable'')"
    by (simp add: tool_writable)
  from read_only_blocks_writable_tools [OF is_read_only_true member flag]
  show ?thesis
    by (simp only: tool_names is_read_only_true member flag simp_thms)
qed

text \<open>
  C2, as the code has it. The catalog has 21 tools, 6 of them with the writable flag; in
  read-only mode the listing has 15 entries, and calling \<open>create_cloudspace\<close> with any
  arguments answers an error result whose text contains "not available in read-only mode".
\<close>

theorem catalog_counts:
  "length allTools = 21
   \<and> length (filter (\<lambda>tool. truthy (get_prop tool ''writable'')) allTools) = 6
   \<and> (isReadOnly e \<longrightarrow>
        length (listTools e) = 15
        \<and> isError (answer (callTool e methods stringify client ''create_cloudspace'' args))
        \<and> map (\<lambda>c. str_includes (content_text c) ''not available in read-only mode'')
             (content (answer (callTool e methods stringify client ''create_cloudspace'' args))) = [True])"
proof (intro conjI impI)
  show "length allTools = 21"
    by (simp add: allTools_def)
  show "length (filter (\<lambda>tool. truthy (get_prop tool ''writable'')) allTools) = 6"
    by (simp add: writable_tools)
next
  assume ro: "isReadOnly e"
  show "length (listTools e) = 15"
    by (simp add: listTools_read_only [OF ro] read_only_tools)
  have gate: "''create_cloudspace'' \<in> set WRITABLE_TOOLS"
    by (simp add: WRITABLE_TOOLS_def)
  show "isError (answer (callTool e methods stringify client ''create_cloudspace'' args))"
    by (simp add: callTool_blocked [OF ro gate] error_result_def)
  define msg where "msg = ''Error: Tool '' @ [CHR 0x22] @ ''create_cloudspace'' @ [CHR 0x22]
      @ '' is not available in read-only mode. ''
      @ ''Set RACKSPACE_SPOT_READ_ONLY=false to enable write operations.''"
  have "msg = (''Error: Tool '' @ [CHR 0x22] @ ''create_cloudspace'' @ [CHR 0x22] @ '' is '')
          @ ''not available in read-only mode''
          @ ''. Set RACKSPACE_SPOT_READ_ONLY=false to enable write operations.''"
    by (simp add: msg_def)
  then have inc: "str_includes msg ''not available in read-only mode''"
    by (simp only: str_includes_append)
  have "content (answer (callTool e methods stringify client ''create_cloudspace'' args))
        = [\<lparr> content_type = ''text'', content_text = msg \<rparr>]"
    by (simp add: callTool_blocked [OF ro gate] error_result_def msg_def)
  then show "map (\<lambda>c. str_includes (content_text c) ''not available in read-only mode'')
      (content (answer (callTool e methods stringify client ''create_cloudspace'' args))) = [True]"
    by (simp add: inc del: str_includes.simps)
qed

theorem catalog_counts_witness:
  "isReadOnly [''RACKSPACE_SPOT_READ_ONLY'' \<mapsto> ''1'']
   \<and> length (listTools [''RACKSPACE_SPOT_READ_ONLY'' \<mapsto> ''1'']) = 15
   \<and> isError (answer (callTool [''RACKSPACE_SPOT_READ_ONLY'' \<mapsto> ''1''] (\<lambda>call c. (Inr JNull, c))
        (\<lambda>r. ''null'') None ''create_cloudspace'' None))"
proof -
  have ro: "isReadOnly [''RACKSPACE_SPOT_READ_ONLY'' \<mapsto> ''1'']"
    by (simp add: isReadOnly_def)
  from catalog_counts [of "[''RACKSPACE_SPOT_READ_ONLY'' \<mapsto> ''1'']" "\<lambda>call c. (Inr JNull, c)"
      "\<lambda>r. ''null''" None None] ro
  show ?thesis by blast
qed

theorem catalog_counts_counterexample:
  "length allTools \<noteq> 22
   \<and> length (listTools [''RACKSPACE_SPOT_READ_ONLY'' \<mapsto> ''true'']) \<noteq> 16"
proof
  show "length allTools \<noteq> 22"
    by (simp add: allTools_def)
  show "length (listTools [''RACKSPACE_SPOT_READ_ONLY'' \<mapsto> ''true'']) \<noteq> 16"
    by (simp add: listTools_read_only [OF is_read_only_true] read_only_tools)
qed

text \<open>
  C9. In both modes every entry of the listing is a tool of the catalog without its
  writable flag: the entry has no \<open>writable\<close> property, its properties are \<open>name\<close>,
  \<open>description\<close> and \<open>inputSchema\<close>, and they have the values of the catalog's entry. The
  listing is a function of the catalog and builds new objects; the tools of the catalog
  whose names the gate blocks carry the flag \<open>true\<close> as before, and the others carry none.
\<close>

theorem listing_strips_writable_flag:
  "(\<forall>p \<in> set (listTools e).
      get_prop p ''writable'' = None
      \<and> map fst p = [''name'', ''description'', ''inputSchema'']
      \<and> (\<exists>t \<in> set allTools. p = omit ''writable'' t
            \<and> (\<forall>k. k \<noteq> ''writable'' \<longrightarrow> get_prop p k = get_prop t k)))
   \<and> (\<forall>t \<in> set allTools.
        (tool_name t \<in> set WRITABLE_TOOLS) = (get_prop t ''writable'' = Some (JBool True))
        \<and> (tool_name t \<notin> set WRITABLE_TOOLS) = (get_prop t ''writable'' = None))"
proof (intro conjI ballI)
  fix p
  assume "p \<in> set (listTools e)"
  then obtain t where t: "t \<in> set allTools" and p: "p = omit ''writable'' t"
    using listTools_from_catalog by blast
  show "get_prop p ''writable'' = None"
    by (simp add: p get_prop_omit)
  show "map fst p = [''name'', ''description'', ''inputSchema'']"
    using t by (simp add: p catalog_keys)
  show "\<exists>t \<in> set allTools. p = omit ''writable'' t
          \<and> (\<forall>k. k \<noteq> ''writable'' \<longrightarrow> get_prop p k = get_prop t k)"
    using t p by (auto simp: get_prop_omit)
next
  fix t
  assume t: "t \<in> set allTools"
  show "(tool_name t \<in> set WRITABLE_TOOLS) = (get_prop t ''writable'' = Some (JBool True))"
    using t by (rule catalog_flags)
  show "(tool_name t \<notin> set WRITABLE_TOOLS) = (get_prop t ''writable'' = None)"
    using t unfolding allTools_def WRITABLE_TOOLS_def
    by (auto simp: tool_names tool_flags)
qed

theorem listing_strips_writable_flag_witness:
  "omit ''writable'' tool_delete_cloudspace \<in> set (listTools Map.empty)
   \<and> get_prop (omit ''writable'' tool_delete_cloudspace) ''writable'' = None
   \<and> map fst (omit ''writable'' tool_delete_cloudspace) = [''name'', ''description'', ''inputSchema'']
   \<and> tool_delete_cloudspace \<in> set allTools
   \<and> get_prop tool_delete_cloudspace ''writable'' = Some (JBool True)"
proof -
  have rw: "\<not> isReadOnly Map.empty"
    by (simp add: isReadOnly_def)
  have member: "tool_delete_cloudspace \<in> set allTools"
    by (simp add: allTools_def)
  then have listed: "omit ''writable'' tool_delete_cloudspace \<in> set (listTools Map.empty)"
    by (simp only: listTools_read_write [OF rw] set_map) (rule imageI)
  have gate: "tool_name tool_delete_cloudspace \<in> set WRITABLE_TOOLS"
    by (simp add: tool_names WRITABLE_TOOLS_def)
  note main = listing_strips_writable_flag [of Map.empty]
  from main [THEN conjunct1, THEN bspec, OF listed]
    main [THEN conjunct2, THEN bspec, OF member] gate member listed
  show ?thesis by blast
qed

section \<open>The claims about answering tool calls\<close>

lemma callTool_no_client:
  "\<not> (isReadOnly e \<and> name \<in> set WRITABLE_TOOLS) \<Longrightarrow> getClient e client = Inl msg \<Longrightarrow>
   callTool e methods stringify client name args =
     \<lparr> answer = error_result (''Error: '' @ msg), invoked = None, held_client = client \<rparr>"
  by (auto simp: callTool_def)

lemma callTool_unknown:
  "name \<notin> set (map tool_name allTools) \<Longrightarrow> getClient e client = Inr c \<Longrightarrow>
   callTool e methods stringify client name args =
     \<lparr> answer = error_result (''Error: Unknown tool: '' @ name), invoked = None, held_client = Some c \<rparr>"
proof -
  assume unknown: "name \<notin> set (map tool_name allTools)" and cl: "getClient e client = Inr c"
  have "name \<notin> set WRITABLE_TOOLS"
    using unknown unfolding catalog_names WRITABLE_TOOLS_def by auto
  then show ?thesis
    using cl dispatch_unknown [OF unknown] by (simp add: callTool_def)
qed

lemma callTool_method:
  "\<not> (isReadOnly e \<and> name \<in> set WRITABLE_TOOLS) \<Longrightarrow> getClient e client = Inr c \<Longrightarrow>
   dispatch name args = Some call \<Longrightarrow>
   callTool e methods stringify client name args =
     (case methods call c of
        (Inl msg, c') \<Rightarrow>
          \<lparr> answer = error_result (''Error: '' @ msg), invoked = Some call, held_client = Some c' \<rparr>
      | (Inr r, c') \<Rightarrow>
          \<lparr> answer = \<lparr> content = [\<lparr> content_type = ''text'', content_text = stringify r \<rparr>],
                       isError = False \<rparr>,
            invoked = Some call, held_client = Some c' \<rparr>)"
  by (auto simp: callTool_def)

lemma callTool_error_or_value:
  "isError (answer (callTool e methods stringify client name args))
   \<or> (\<exists>call c r c'. getClient e client = Inr c \<and> dispatch name args = Some call
         \<and> methods call c = (Inr r, c')
         \<and> callTool e methods stringify client name args =
             \<lparr> answer = \<lparr> content = [\<lparr> content_type = ''text'', content_text = stringify r \<rparr>],
                          isError = False \<rparr>,
               invoked = Some call, held_client = Some c' \<rparr>)"
  by (auto simp: callTool_def error_result_def split: sum.splits option.splits prod.splits)

lemma getRefreshToken_unset:
  "getRefreshToken Map.empty =
     Inl (''RACKSPACE_SPOT_REFRESH_TOKEN environment variable is required. ''
          @ ''Get your refresh token from https://spot.rackspace.com/ui/api-access/terraform'')"
  by (simp add: getRefreshToken_def)

lemma not_read_only_unset: "\<not> isReadOnly Map.empty"
  by (simp add: isReadOnly_def)

text \<open>
  C7, as the code has it. The handler of tool calls is a total function into result
  envelopes; the errors of the layers below are the \<open>Inl\<close> values it is given, and there is
  no other way out of it. For every name, argument object, environment and client:
  an error of the method it calls is answered as an error result with the text
  "Error: " and the error's message; a call that is not answered with an error result is
  one whose method returned a value; and a name that is not in the catalog is answered
  with an error result in both modes, no method being called. That result reads
  "Error: Unknown tool: <name>" when the server has its client, which it has only after
  reading a credential from the environment; when the credential is not set, the answer
  is the error result reporting the missing credential instead.
\<close>

theorem callTool_answers_every_failure:
  "(\<forall>c call msg c'.
       \<not> (isReadOnly e \<and> name \<in> set WRITABLE_TOOLS) \<and> getClient e client = Inr c
       \<and> dispatch name args = Some call \<and> methods call c = (Inl msg, c')
       \<longrightarrow> answer (callTool e methods stringify client name args) = error_result (''Error: '' @ msg))
   \<and> (isError (answer (callTool e methods stringify client name args))
        \<or> (\<exists>call c r c'. getClient e client = Inr c \<and> dispatch name args = Some call
              \<and> methods call c = (Inr r, c')
              \<and> answer (callTool e methods stringify client name args) =
                  \<lparr> content = [\<lparr> content_type = ''text'', content_text = stringify r \<rparr>],
                    isError = False \<rparr>))
   \<and> (name \<notin> set (map tool_name allTools) \<longrightarrow>
        isError (answer (callTool e methods stringify client name args))
        \<and> invoked (callTool e methods stringify client name args) = None
        \<and> (\<forall>c. getClient e client = Inr c \<longrightarrow>
              answer (callTool e methods stringify client name args)
                = error_result (''Error: Unknown tool: '' @ name))
        \<and> (\<forall>msg. getClient e client = Inl msg \<longrightarrow>
              answer (callTool e methods stringify client name args)
                = error_result (''Error: '' @ msg)))"
proof (intro conjI allI impI)
  fix c call msg c'
  assume "\<not> (isReadOnly e \<and> name \<in> set WRITABLE_TOOLS) \<and> getClient e client = Inr c
       \<and> dispatch name args = Some call \<and> methods call c = (Inl msg, c')"
  then show "answer (callTool e methods stringify client name args) = error_result (''Error: '' @ msg)"
    by (simp add: callTool_method)
next
  show "isError (answer (callTool e methods stringify client name args))
        \<or> (\<exists>call c r c'. getClient e client = Inr c \<and> dispatch name args = Some call
              \<and> methods call c = (Inr r, c')
              \<and> answer (callTool e methods stringify client name args) =
                  \<lparr> content = [\<lparr> content_type = ''text'', content_text = stringify r \<rparr>],
                    isError = False \<rparr>)"
    using callTool_error_or_value [of e methods stringify client name args]
    by (elim disjE exE conjE) (simp, metis outcome.select_convs(1))
next
  assume unknown: "name \<notin> set (map tool_name allTools)"
  have gate: "\<not> (isReadOnly e \<and> name \<in> set WRITABLE_TOOLS)"
    using unknown unfolding catalog_names WRITABLE_TOOLS_def by auto
  show "isError (answer (callTool e methods stringify client name args))"
    by (cases "getClient e client")
       (simp_all add: callTool_no_client [OF gate] callTool_unknown [OF unknown] error_result_def)
  show "invoked (callTool e methods stringify client name args) = None"
    by (cases "getClient e client")
       (simp_all add: callTool_no_client [OF gate] callTool_unknown [OF unknown])
  show "\<And>c. getClient e client = Inr c \<Longrightarrow>
          answer (callTool e methods stringify client name args)
            = error_result (''Error: Unknown tool: '' @ name)"
    by (simp add: callTool_unknown [OF unknown])
  show "\<And>msg. getClient e client = Inl msg \<Longrightarrow>
          answer (callTool e methods stringify client name args) = error_result (''Error: '' @ msg)"
    by (simp add: callTool_no_client [OF gate])
qed

theorem callTool_answers_every_failure_witness:
  "''nonexistent_tool'' \<notin> set (map tool_name allTools)
   \<and> getClient [''RACKSPACE_SPOT_REFRESH_TOKEN'' \<mapsto> ''test-token''] None
       = Inr \<lparr> refreshToken = ''test-token'', accessToken = None, tokenExpiry = 0,
               authBaseUrl = AUTH_BASE_URL, apiBaseUrl = API_BASE_URL \<rparr>
   \<and> answer (callTool [''RACKSPACE_SPOT_REFRESH_TOKEN'' \<mapsto> ''test-token'']
        (\<lambda>call c. (Inl ''Failed to list regions: {}'', c)) (\<lambda>r. ''null'') None ''nonexistent_tool'' (Some []))
       = error_result ''Error: Unknown tool: nonexistent_tool''"
proof -
  have unknown: "''nonexistent_tool'' \<notin> set (map tool_name allTools)"
    by (simp add: catalog_names)
  have cl: "getClient [''RACKSPACE_SPOT_REFRESH_TOKEN'' \<mapsto> ''test-token''] None
       = Inr \<lparr> refreshToken = ''test-token'', accessToken = None, tokenExpiry = 0,
               authBaseUrl = AUTH_BASE_URL, apiBaseUrl = API_BASE_URL \<rparr>"
    by (simp add: getClient_def getRefreshToken_def new_SpotClient_def)
  note main = callTool_answers_every_failure
    [of "[''RACKSPACE_SPOT_REFRESH_TOKEN'' \<mapsto> ''test-token'']" "''nonexistent_tool''" None "Some []"
        "\<lambda>call c. (Inl ''Failed to list regions: {}'', c)" "\<lambda>r. ''null''"]
  from main [THEN conjunct2, THEN conjunct2, THEN mp, OF unknown]
  have "answer (callTool [''RACKSPACE_SPOT_REFRESH_TOKEN'' \<mapsto> ''test-token'']
        (\<lambda>call c. (Inl ''Failed to list regions: {}'', c)) (\<lambda>r. ''null'') None ''nonexistent_tool'' (Some []))
       = error_result (''Error: Unknown tool: '' @ ''nonexistent_tool'')"
    using cl by blast
  then show ?thesis
    using unknown cl by simp
qed

theorem callTool_unknown_tool_counterexample:
  "''nonexistent_tool'' \<notin> set (map tool_name allTools)
   \<and> answer (callTool Map.empty (\<lambda>call c. (Inr JNull, c)) (\<lambda>r. ''null'') None ''nonexistent_tool'' (Some []))
       = \<lparr> content = [\<lparr> content_type = ''text'',
              content_text = ''Error: RACKSPACE_SPOT_REFRESH_TOKEN environment variable is required. ''
                @ ''Get your refresh token from https://spot.rackspace.com/ui/api-access/terraform'' \<rparr>],
           isError = True \<rparr>
   \<and> answer (callTool Map.empty (\<lambda>call c. (Inr JNull, c)) (\<lambda>r. ''null'') None ''nonexistent_tool'' (Some []))
       \<noteq> error_result ''Error: Unknown tool: nonexistent_tool''"
proof -
  have unknown: "''nonexistent_tool'' \<notin> set (map tool_name allTools)"
    by (simp add: catalog_names)
  have gate: "\<not> (isReadOnly Map.empty \<and> ''nonexistent_tool'' \<in> set WRITABLE_TOOLS)"
    by (simp add: not_read_only_unset)
  have cl: "getClient Map.empty None =
     Inl (''RACKSPACE_SPOT_REFRESH_TOKEN environment variable is required. ''
          @ ''Get your refresh token from https://spot.rackspace.com/ui/api-access/terraform'')"
    by (simp add: getClient_def getRefreshToken_unset)
  show ?thesis
    using unknown by (simp add: callTool_no_client [OF gate cl] error_result_def)
qed

text \<open>
  C8, as the code has it. No failure of a tool call leaves the handler as an exception,
  which is the only way a call could end the process: the handler returns, with an error
  result, when read-only mode blocks the tool, when the client cannot be created because
  the credential is not set, when the name is not a tool, and when the method of the
  client throws. The server then holds the client it held, or the one the method left,
  for the next call. Starting the server reads no credential: \<open>main\<close> ends with a fatal
  error exactly when connecting the transport fails, with that error, and otherwise the
  server runs, without a client, in the mode the environment names. The credential is
  read by the first tool call that needs the client: where it is not set, every call that
  passes the read-only gate is answered with the error result reporting it, no method is
  called and the server has no client afterwards, so that the next call reads it again.
\<close>

theorem failures_answered_and_startup_reads_no_credential:
  "(isReadOnly e \<and> name \<in> set WRITABLE_TOOLS \<longrightarrow>
      callTool e methods stringify client name args =
        \<lparr> answer = error_result (''Error: Tool '' @ [CHR 0x22] @ name @ [CHR 0x22]
                   @ '' is not available in read-only mode. ''
                   @ ''Set RACKSPACE_SPOT_READ_ONLY=false to enable write operations.''),
          invoked = None, held_client = client \<rparr>)
   \<and> (\<forall>msg. \<not> (isReadOnly e \<and> name \<in> set WRITABLE_TOOLS) \<and> getClient e client = Inl msg \<longrightarrow>
         callTool e methods stringify client name args =
           \<lparr> answer = error_result (''Error: '' @ msg), invoked = None, held_client = client \<rparr>)
   \<and> (\<forall>c. \<not> (isReadOnly e \<and> name \<in> set WRITABLE_TOOLS) \<and> getClient e client = Inr c
            \<and> dispatch name args = None \<longrightarrow>
         callTool e methods stringify client name args =
           \<lparr> answer = error_result (''Error: Unknown tool: '' @ name), invoked = None,
             held_client = Some c \<rparr>)
   \<and> (\<forall>c call msg c'. \<not> (isReadOnly e \<and> name \<in> set WRITABLE_TOOLS) \<and> getClient e client = Inr c
            \<and> dispatch name args = Some call \<and> methods call c = (Inl msg, c') \<longrightarrow>
         callTool e methods stringify client name args =
           \<lparr> answer = error_result (''Error: '' @ msg), invoked = Some call, held_client = Some c' \<rparr>)
   \<and> (isError (answer (callTool e methods stringify client name args))
        \<or> (\<exists>call c r c'. getClient e client = Inr c \<and> dispatch name args = Some call
              \<and> methods call c = (Inr r, c')
              \<and> callTool e methods stringify client name args =
                  \<lparr> answer = \<lparr> content = [\<lparr> content_type = ''text'', content_text = stringify r \<rparr>],
                               isError = False \<rparr>,
                    invoked = Some call, held_client = Some c' \<rparr>))
   \<and> isError (error_result shown)
   \<and> (main e connect = Inl err) = (connect = Inl err)
   \<and> main e (Inr ()) =
       Inr \<lparr> server_client = None,
              startup_message = ''Rackspace Spot MCP server running on stdio (''
                @ (if isReadOnly e then ''read-only'' else ''read-write'') @ '' mode)'' \<rparr>
   \<and> (\<forall>msg. getRefreshToken e = Inl msg \<and> \<not> (isReadOnly e \<and> name \<in> set WRITABLE_TOOLS) \<longrightarrow>
         callTool e methods stringify None name args =
           \<lparr> answer = error_result (''Error: '' @ msg), invoked = None, held_client = None \<rparr>)"
proof -
  have blocked: "isReadOnly e \<and> name \<in> set WRITABLE_TOOLS \<longrightarrow>
      callTool e methods stringify client name args =
        \<lparr> answer = error_result (''Error: Tool '' @ [CHR 0x22] @ name @ [CHR 0x22]
                   @ '' is not available in read-only mode. ''
                   @ ''Set RACKSPACE_SPOT_READ_ONLY=false to enable write operations.''),
          invoked = None, held_client = client \<rparr>"
    using callTool_blocked [of e name methods stringify client args] by blast
  have no_client: "\<forall>msg. \<not> (isReadOnly e \<and> name \<in> set WRITABLE_TOOLS) \<and> getClient e client = Inl msg \<longrightarrow>
         callTool e methods stringify client name args =
           \<lparr> answer = error_result (''Error: '' @ msg), invoked = None, held_client = client \<rparr>"
    using callTool_no_client [of e name client _ methods stringify args] by blast
  have unknown: "\<forall>c. \<not> (isReadOnly e \<and> name \<in> set WRITABLE_TOOLS) \<and> getClient e client = Inr c
            \<and> dispatch name args = None \<longrightarrow>
         callTool e methods stringify client name args =
           \<lparr> answer = error_result (''Error: Unknown tool: '' @ name), invoked = None,
             held_client = Some c \<rparr>"
    by (auto simp: callTool_def)
  have thrown: "\<forall>c call msg c'. \<not> (isReadOnly e \<and> name \<in> set WRITABLE_TOOLS) \<and> getClient e client = Inr c
            \<and> dispatch name args = Some call \<and> methods call c = (Inl msg, c') \<longrightarrow>
         callTool e methods stringify client name args =
           \<lparr> answer = error_result (''Error: '' @ msg), invoked = Some call, held_client = Some c' \<rparr>"
    by (auto simp: callTool_method)
  have flagged: "isError (error_result shown)"
    by (simp add: error_result_def)
  have startup: "(main e connect = Inl err) = (connect = Inl err)"
    by (cases connect) (simp_all add: main_def Let_def)
  have started: "main e (Inr ()) =
       Inr \<lparr> server_client = None,
              startup_message = ''Rackspace Spot MCP server running on stdio (''
                @ (if isReadOnly e then ''read-only'' else ''read-write'') @ '' mode)'' \<rparr>"
    by (simp add: main_def Let_def)
  have unset: "\<forall>msg. getRefreshToken e = Inl msg \<and> \<not> (isReadOnly e \<and> name \<in> set WRITABLE_TOOLS) \<longrightarrow>
         callTool e methods stringify None name args =
           \<lparr> answer = error_result (''Error: '' @ msg), invoked = None, held_client = None \<rparr>"
  proof (intro allI impI)
    fix msg
    assume a: "getRefreshToken e = Inl msg \<and> \<not> (isReadOnly e \<and> name \<in> set WRITABLE_TOOLS)"
    then have "getClient e None = Inl msg"
      by (simp add: getClient_def)
    with a show "callTool e methods stringify None name args =
        \<lparr> answer = error_result (''Error: '' @ msg), invoked = None, held_client = None \<rparr>"
      by (simp add: callTool_no_client)
  qed
  show ?thesis
    by (rule conjI, rule blocked, rule conjI, rule no_client, rule conjI, rule unknown,
        rule conjI, rule thrown, rule conjI, rule callTool_error_or_value,
        rule conjI, rule flagged, rule conjI, rule startup, rule conjI, rule started, rule unset)
qed

theorem failures_answered_and_startup_reads_no_credential_witness:
  "getRefreshToken Map.empty =
     Inl (''RACKSPACE_SPOT_REFRESH_TOKEN environment variable is required. ''
          @ ''Get your refresh token from https://spot.rackspace.com/ui/api-access/terraform'')
   \<and> \<not> (isReadOnly Map.empty \<and> ''list_regions'' \<in> set WRITABLE_TOOLS)
   \<and> callTool Map.empty (\<lambda>call c. (Inr JNull, c)) (\<lambda>r. ''null'') None ''list_regions'' None =
       \<lparr> answer = error_result (''Error: '' @ ''RACKSPACE_SPOT_REFRESH_TOKEN environment variable is required. ''
            @ ''Get your refresh token from https://spot.rackspace.com/ui/api-access/terraform''),
         invoked = None, held_client = None \<rparr>
   \<and> getClient [''RACKSPACE_SPOT_REFRESH_TOKEN'' \<mapsto> ''test-token''] (Some example_client) = Inr example_client
   \<and> dispatch ''list_regions'' None = Some (''listRegions'', [])
   \<and> callTool [''RACKSPACE_SPOT_REFRESH_TOKEN'' \<mapsto> ''test-token'']
        (\<lambda>call c. (Inl ''Failed to list regions: {}'', c)) (\<lambda>r. ''null'') (Some example_client)
        ''list_regions'' None =
       \<lparr> answer = error_result (''Error: '' @ ''Failed to list regions: {}''),
         invoked = Some (''listRegions'', []), held_client = Some example_client \<rparr>"
proof -
  have gate: "\<not> (isReadOnly Map.empty \<and> ''list_regions'' \<in> set WRITABLE_TOOLS)"
    by (simp add: not_read_only_unset)
  note unset = failures_answered_and_startup_reads_no_credential
    [of Map.empty "''list_regions''" "\<lambda>call c. (Inr JNull, c)" "\<lambda>r. ''null''" None None,
     THEN conjunct2, THEN conjunct2, THEN conjunct2, THEN conjunct2, THEN conjunct2,
     THEN conjunct2, THEN conjunct2, THEN conjunct2, THEN spec, THEN mp, OF conjI,
     OF getRefreshToken_unset gate]
  have gate': "\<not> (isReadOnly [''RACKSPACE_SPOT_REFRESH_TOKEN'' \<mapsto> ''test-token'']
      \<and> ''list_regions'' \<in> set WRITABLE_TOOLS)"
    by (simp add: isReadOnly_def)
  have cl: "getClient [''RACKSPACE_SPOT_REFRESH_TOKEN'' \<mapsto> ''test-token''] (Some example_client)
      = Inr example_client"
    by (simp add: getClient_def)
  have dp: "dispatch ''list_regions'' None = Some (''listRegions'', [])"
    by (simp add: dispatch_def)
  have thrown: "(\<lambda>call c. (Inl ''Failed to list regions: {}'', c)) (''listRegions'', []) example_client
      = (Inl ''Failed to list regions: {}'' :: string + json, example_client)"
    by simp
  note failed = failures_answered_and_startup_reads_no_credential
    [of "[''RACKSPACE_SPOT_REFRESH_TOKEN'' \<mapsto> ''test-token'']" "''list_regions''"
        "\<lambda>call c. (Inl ''Failed to list regions: {}'', c)" "\<lambda>r. ''null''" "Some example_client" None,
     THEN conjunct2, THEN conjunct2, THEN conjunct2, THEN conjunct1,
     THEN spec, THEN spec, THEN spec, THEN spec, THEN mp,
     OF conjI [OF gate' conjI [OF cl conjI [OF dp thrown]]]]
  show ?thesis
    using unset failed getRefreshToken_unset gate cl dp by simp
qed

theorem startup_without_credential_counterexample:
  "getRefreshToken Map.empty =
     Inl (''RACKSPACE_SPOT_REFRESH_TOKEN environment variable is required. ''
          @ ''Get your refresh token from https://spot.rackspace.com/ui/api-access/terraform'')
   \<and> main Map.empty (Inr ()) =
       Inr \<lparr> server_client = None,
              startup_message = ''Rackspace Spot MCP server running on stdio (read-write mode)'' \<rparr>"
  by (simp add: getRefreshToken_unset main_def not_read_only_unset)

section \<open>The claims about the session\<close>

lemma authenticate_resume_failure:
  "\<not> ok resp \<Longrightarrow>
   authenticate_resume (Resolved resp) c w =
     (Inl (''Authentication failed: '' @ string_of_nat (status resp) @ '' - '' @ body_text resp), c)"
  by (simp add: authenticate_resume_def)

lemma authenticate_resume_error:
  "authenticate_resume r c w = (Inl msg, c') \<Longrightarrow> c' = c"
  by (auto simp: authenticate_resume_def split: fetched.splits if_splits sum.splits)

lemma authenticate_resume_success:
  "authenticate_resume r c w = (Inr u, c') \<Longrightarrow>
   \<exists>resp data. r = Resolved resp \<and> ok resp \<and> body_token resp = Inr data
     \<and> c' = c\<lparr> accessToken := Some (id_token data), tokenExpiry := clock w + expires_in data * 1000 \<rparr>"
  by (auto simp: authenticate_resume_def split: fetched.splits if_splits sum.splits)

lemma authenticate_unfold:
  "net (authenticate_request c) w = (r, dt) \<Longrightarrow>
   authenticate net c w =
     (fst (authenticate_resume r c (w\<lparr> clock := clock w + int dt, fetch_log := fetch_log w @ [authenticate_request c] \<rparr>)),
      snd (authenticate_resume r c (w\<lparr> clock := clock w + int dt, fetch_log := fetch_log w @ [authenticate_request c] \<rparr>)),
      w\<lparr> clock := clock w + int dt, fetch_log := fetch_log w @ [authenticate_request c] \<rparr>)"
  by (simp add: authenticate_def customFetch_def split: prod.splits)

lemma authenticate_log:
  "authenticate net c w = (res, c', w') \<Longrightarrow> fetch_log w' = fetch_log w @ [authenticate_request c]"
  by (cases "net (authenticate_request c) w") (auto simp: authenticate_unfold)

text \<open>
  C5. For every response to the token request that is not a success, \<open>authenticate\<close>
  throws the error "Authentication failed: <status> - <body>" and the client is as it
  was, access token and expiry included. Whenever \<open>authenticate\<close> throws, the client is as
  it was; and where the client has changed, the response was a success, and the token and
  the expiry are those of that response.
\<close>

theorem authenticate_failure_keeps_session:
  "(\<forall>resp dt. net (authenticate_request c) w = (Resolved resp, dt) \<and> \<not> ok resp \<longrightarrow>
      authenticate net c w =
        (Inl (''Authentication failed: '' @ string_of_nat (status resp) @ '' - '' @ body_text resp),
         c,
         w\<lparr> clock := clock w + int dt, fetch_log := fetch_log w @ [authenticate_request c] \<rparr>))
   \<and> (\<forall>msg c' w'. authenticate net c w = (Inl msg, c', w') \<longrightarrow>
         c' = c \<and> accessToken c' = accessToken c \<and> tokenExpiry c' = tokenExpiry c)
   \<and> (\<forall>res c' w'. authenticate net c w = (res, c', w') \<and> c' \<noteq> c \<longrightarrow>
         (\<exists>resp dt data. net (authenticate_request c) w = (Resolved resp, dt) \<and> ok resp
            \<and> body_token resp = Inr data \<and> res = Inr ()
            \<and> c' = c\<lparr> accessToken := Some (id_token data),
                        tokenExpiry := clock w + int dt + expires_in data * 1000 \<rparr>))"
proof -
  have failure: "\<forall>resp dt. net (authenticate_request c) w = (Resolved resp, dt) \<and> \<not> ok resp \<longrightarrow>
      authenticate net c w =
        (Inl (''Authentication failed: '' @ string_of_nat (status resp) @ '' - '' @ body_text resp),
         c,
         w\<lparr> clock := clock w + int dt, fetch_log := fetch_log w @ [authenticate_request c] \<rparr>)"
    by (simp add: authenticate_unfold authenticate_resume_failure)
  have thrown: "\<forall>msg c' w'. authenticate net c w = (Inl msg, c', w') \<longrightarrow>
         c' = c \<and> accessToken c' = accessToken c \<and> tokenExpiry c' = tokenExpiry c"
  proof (intro allI impI)
    fix msg c' w'
    assume a: "authenticate net c w = (Inl msg, c', w')"
    obtain r dt where net: "net (authenticate_request c) w = (r, dt)"
      by (cases "net (authenticate_request c) w")
    from a have "c' = c"
      unfolding authenticate_unfold [of net c w r dt, OF net]
      by (metis authenticate_resume_error prod.collapse prod.inject)
    then show "c' = c \<and> accessToken c' = accessToken c \<and> tokenExpiry c' = tokenExpiry c"
      by simp
  qed
  have changed: "\<forall>res c' w'. authenticate net c w = (res, c', w') \<and> c' \<noteq> c \<longrightarrow>
         (\<exists>resp dt data. net (authenticate_request c) w = (Resolved resp, dt) \<and> ok resp
            \<and> body_token resp = Inr data \<and> res = Inr ()
            \<and> c' = c\<lparr> accessToken := Some (id_token data),
                        tokenExpiry := clock w + int dt + expires_in data * 1000 \<rparr>)"
  proof (intro allI impI)
    fix res c' w'
    assume a: "authenticate net c w = (res, c', w') \<and> c' \<noteq> c"
    obtain r dt where net: "net (authenticate_request c) w = (r, dt)"
      by (cases "net (authenticate_request c) w")
    let ?w = "w\<lparr> clock := clock w + int dt, fetch_log := fetch_log w @ [authenticate_request c] \<rparr>"
    from a have resume: "authenticate_resume r c ?w = (res, c')"
      unfolding authenticate_unfold [of net c w r dt, OF net] by (auto simp: prod_eq_iff)
    have "\<exists>u. res = Inr u"
    proof (cases res)
      case (Inl msg)
      with resume a show ?thesis
        using authenticate_resume_error by blast
    next
      case (Inr u)
      then show ?thesis by blast
    qed
    then have res: "res = Inr ()" by auto
    from authenticate_resume_success [OF resume [unfolded res]]
    obtain resp data where "r = Resolved resp" "ok resp" "body_token resp = Inr data"
      "c' = c\<lparr> accessToken := Some (id_token data), tokenExpiry := clock ?w + expires_in data * 1000 \<rparr>"
      by blast
    with net res show "\<exists>resp dt data. net (authenticate_request c) w = (Resolved resp, dt) \<and> ok resp
              \<and> body_token resp = Inr data \<and> res = Inr ()
              \<and> c' = c\<lparr> accessToken := Some (id_token data),
                          tokenExpiry := clock w + int dt + expires_in data * 1000 \<rparr>"
      by auto
  qed
  show ?thesis
    by (rule conjI, rule failure, rule conjI, rule thrown, rule changed)
qed

lemma string_of_401: "string_of_nat 401 = ''401''"
  by code_simp

theorem authenticate_failure_keeps_session_witness:
  "authenticate
     (\<lambda>req w. (Resolved \<lparr> ok = False, status = 401, body_text = ''Unauthorized'',
                           body_token = Inl ''Unexpected token'', body_json = Inl ''Unexpected token'' \<rparr>, 5))
     \<lparr> refreshToken = ''test-refresh-token'', accessToken = Some ''cached'', tokenExpiry = 1000,
       authBaseUrl = AUTH_BASE_URL, apiBaseUrl = API_BASE_URL \<rparr>
     \<lparr> clock = 2000, fetch_log = [] \<rparr>
   = (Inl ''Authentication failed: 401 - Unauthorized'',
      \<lparr> refreshToken = ''test-refresh-token'', accessToken = Some ''cached'', tokenExpiry = 1000,
        authBaseUrl = AUTH_BASE_URL, apiBaseUrl = API_BASE_URL \<rparr>,
      \<lparr> clock = 2005,
        fetch_log = [authenticate_request
          \<lparr> refreshToken = ''test-refresh-token'', accessToken = Some ''cached'', tokenExpiry = 1000,
            authBaseUrl = AUTH_BASE_URL, apiBaseUrl = API_BASE_URL \<rparr>] \<rparr>)"
  using authenticate_failure_keeps_session [THEN conjunct1, THEN spec, THEN spec, THEN mp,
    of "\<lambda>req w. (Resolved \<lparr> ok = False, status = 401, body_text = ''Unauthorized'',
                           body_token = Inl ''Unexpected token'', body_json = Inl ''Unexpected token'' \<rparr>, 5)"
       "\<lparr> refreshToken = ''test-refresh-token'', accessToken = Some ''cached'', tokenExpiry = 1000,
         authBaseUrl = AUTH_BASE_URL, apiBaseUrl = API_BASE_URL \<rparr>"
       "\<lparr> clock = 2000, fetch_log = [] \<rparr>"
       "\<lparr> ok = False, status = 401, body_text = ''Unauthorized'',
         body_token = Inl ''Unexpected token'', body_json = Inl ''Unexpected token'' \<rparr>" 5]
  by (simp add: string_of_401)

lemma ensureAuthenticated_valid:
  "session_valid c (clock w) \<Longrightarrow> ensureAuthenticated net c w = (Inr (), c, w)"
  by (simp add: ensureAuthenticated_def)

lemma ensureAuthenticated_stale:
  "\<not> session_valid c (clock w) \<Longrightarrow> ensureAuthenticated net c w = authenticate net c w"
  by (simp add: ensureAuthenticated_def)

lemma authenticate_cases:
  "net (authenticate_request c) w = (r, dt) \<Longrightarrow>
   authenticate net c w =
     (case r of
        Rejected msg \<Rightarrow>
          (Inl msg, c, w\<lparr> clock := clock w + int dt, fetch_log := fetch_log w @ [authenticate_request c] \<rparr>)
      | Resolved resp \<Rightarrow>
          if \<not> ok resp then
            (Inl (''Authentication failed: '' @ string_of_nat (status resp) @ '' - '' @ body_text resp),
             c, w\<lparr> clock := clock w + int dt, fetch_log := fetch_log w @ [authenticate_request c] \<rparr>)
          else
            (case body_token resp of
               Inl msg \<Rightarrow>
                 (Inl msg, c, w\<lparr> clock := clock w + int dt, fetch_log := fetch_log w @ [authenticate_request c] \<rparr>)
             | Inr data \<Rightarrow>
                 (Inr (),
                  c\<lparr> accessToken := Some (id_token data),
                     tokenExpiry := clock w + int dt + expires_in data * 1000 \<rparr>,
                  w\<lparr> clock := clock w + int dt, fetch_log := fetch_log w @ [authenticate_request c] \<rparr>)))"
  by (simp add: authenticate_unfold authenticate_resume_def split: fetched.splits sum.splits)

lemma authenticate_request_same:
  "authenticate_request (c\<lparr> accessToken := t, tokenExpiry := x \<rparr>) = authenticate_request c"
  by (simp add: authenticate_request_def)

text \<open>
  C3, as the code has it. An authentication exchange is a call of the fetch function with
  the token request, which the world records. The test of the source is the truth value
  of \<open>this.accessToken\<close>, which is false of \<open>null\<close> and of the empty string. Where the client
  has a token that is not empty and the clock is before the expiry minus 60000
  milliseconds, \<open>ensureAuthenticated\<close> returns at once, the client and the world as they
  were. Where the token is absent or empty, or the clock is at or past the expiry minus
  60000, it does what \<open>authenticate\<close> does: one token request is fetched; a success
  response stores its token and its expiry, counted from the clock at that moment, and
  any other outcome is thrown with the client as it was. It makes one exchange in the
  second case and none in the first, and never more than one. So a first call that stores
  a token that is not empty, followed by a second call before that token's expiry minus
  60000, make one exchange in total.
\<close>

theorem ensureAuthenticated_exchanges:
  "(token_present (accessToken c) \<and> clock w < tokenExpiry c - 60000 \<longrightarrow>
      ensureAuthenticated net c w = (Inr (), c, w))
   \<and> (\<not> token_present (accessToken c) \<or> tokenExpiry c - 60000 \<le> clock w \<longrightarrow>
        ensureAuthenticated net c w = authenticate net c w
        \<and> (\<forall>r dt. net (authenticate_request c) w = (r, dt) \<longrightarrow>
              ensureAuthenticated net c w =
                (case r of
                   Rejected msg \<Rightarrow>
                     (Inl msg, c,
                      w\<lparr> clock := clock w + int dt, fetch_log := fetch_log w @ [authenticate_request c] \<rparr>)
                 | Resolved resp \<Rightarrow>
                     if \<not> ok resp then
                       (Inl (''Authentication failed: '' @ string_of_nat (status resp) @ '' - ''
                             @ body_text resp),
                        c,
                        w\<lparr> clock := clock w + int dt, fetch_log := fetch_log w @ [authenticate_request c] \<rparr>)
                     else
                       (case body_token resp of
                          Inl msg \<Rightarrow>
                            (Inl msg, c,
                             w\<lparr> clock := clock w + int dt,
                                fetch_log := fetch_log w @ [authenticate_request c] \<rparr>)
                        | Inr data \<Rightarrow>
                            (Inr (),
                             c\<lparr> accessToken := Some (id_token data),
                                tokenExpiry := clock w + int dt + expires_in data * 1000 \<rparr>,
                             w\<lparr> clock := clock w + int dt,
                                fetch_log := fetch_log w @ [authenticate_request c] \<rparr>)))))
   \<and> (\<forall>res c' w'. ensureAuthenticated net c w = (res, c', w') \<longrightarrow>
        (fetch_log w' = fetch_log w @ [authenticate_request c])
          = (\<not> token_present (accessToken c) \<or> tokenExpiry c - 60000 \<le> clock w)
        \<and> (fetch_log w' = fetch_log w)
          = (token_present (accessToken c) \<and> clock w < tokenExpiry c - 60000))
   \<and> (\<forall>resp dt data (w2::world).
        (\<not> token_present (accessToken c) \<or> tokenExpiry c - 60000 \<le> clock w)
        \<and> net (authenticate_request c) w = (Resolved resp, dt) \<and> ok resp
        \<and> body_token resp = Inr data \<and> id_token data \<noteq> []
        \<and> clock w2 < clock w + int dt + expires_in data * 1000 - 60000
        \<and> fetch_log w2 = fetch_log w @ [authenticate_request c] \<longrightarrow>
        ensureAuthenticated net c w =
          (Inr (),
           c\<lparr> accessToken := Some (id_token data),
              tokenExpiry := clock w + int dt + expires_in data * 1000 \<rparr>,
           w\<lparr> clock := clock w + int dt, fetch_log := fetch_log w @ [authenticate_request c] \<rparr>)
        \<and> ensureAuthenticated net
             (c\<lparr> accessToken := Some (id_token data),
                 tokenExpiry := clock w + int dt + expires_in data * 1000 \<rparr>) w2 =
          (Inr (),
           c\<lparr> accessToken := Some (id_token data),
              tokenExpiry := clock w + int dt + expires_in data * 1000 \<rparr>,
           w2)
        \<and> fetch_log w2 = fetch_log w @ [authenticate_request c])"
proof -
  have reuse: "token_present (accessToken c) \<and> clock w < tokenExpiry c - 60000 \<longrightarrow>
        ensureAuthenticated net c w = (Inr (), c, w)"
    by (simp add: ensureAuthenticated_def session_valid_def)
  have stale_eq: "\<not> token_present (accessToken c) \<or> tokenExpiry c - 60000 \<le> clock w \<Longrightarrow>
      ensureAuthenticated net c w = authenticate net c w"
    by (rule ensureAuthenticated_stale) (auto simp: session_valid_def)
  have renew: "\<not> token_present (accessToken c) \<or> tokenExpiry c - 60000 \<le> clock w \<longrightarrow>
        ensureAuthenticated net c w = authenticate net c w
        \<and> (\<forall>r dt. net (authenticate_request c) w = (r, dt) \<longrightarrow>
              ensureAuthenticated net c w =
                (case r of
                   Rejected msg \<Rightarrow>
                     (Inl msg, c,
                      w\<lparr> clock := clock w + int dt, fetch_log := fetch_log w @ [authenticate_request c] \<rparr>)
                 | Resolved resp \<Rightarrow>
                     if \<not> ok resp then
                       (Inl (''Authentication failed: '' @ string_of_nat (status resp) @ '' - ''
                             @ body_text resp),
                        c,
                        w\<lparr> clock := clock w + int dt, fetch_log := fetch_log w @ [authenticate_request c] \<rparr>)
                     else
                       (case body_token resp of
                          Inl msg \<Rightarrow>
                            (Inl msg, c,
                             w\<lparr> clock := clock w + int dt,
                                fetch_log := fetch_log w @ [authenticate_request c] \<rparr>)
                        | Inr data \<Rightarrow>
                            (Inr (),
                             c\<lparr> accessToken := Some (id_token data),
                                tokenExpiry := clock w + int dt + expires_in data * 1000 \<rparr>,
                             w\<lparr> clock := clock w + int dt,
                                fetch_log := fetch_log w @ [authenticate_request c] \<rparr>))))"
  proof (intro impI conjI allI)
    assume stale: "\<not> token_present (accessToken c) \<or> tokenExpiry c - 60000 \<le> clock w"
    show "ensureAuthenticated net c w = authenticate net c w"
      using stale by (rule stale_eq)
    fix r dt
    assume "net (authenticate_request c) w = (r, dt)"
    then show "ensureAuthenticated net c w =
                (case r of
                   Rejected msg \<Rightarrow>
                     (Inl msg, c,
                      w\<lparr> clock := clock w + int dt, fetch_log := fetch_log w @ [authenticate_request c] \<rparr>)
                 | Resolved resp \<Rightarrow>
                     if \<not> ok resp then
                       (Inl (''Authentication failed: '' @ string_of_nat (status resp) @ '' - ''
                             @ body_text resp),
                        c,
                        w\<lparr> clock := clock w + int dt, fetch_log := fetch_log w @ [authenticate_request c] \<rparr>)
                     else
                       (case body_token resp of
                          Inl msg \<Rightarrow>
                            (Inl msg, c,
                             w\<lparr> clock := clock w + int dt,
                                fetch_log := fetch_log w @ [authenticate_request c] \<rparr>)
                        | Inr data \<Rightarrow>
                            (Inr (),
                             c\<lparr> accessToken := Some (id_token data),
                                tokenExpiry := clock w + int dt + expires_in data * 1000 \<rparr>,
                             w\<lparr> clock := clock w + int dt,
                                fetch_log := fetch_log w @ [authenticate_request c] \<rparr>)))"
      by (simp only: stale_eq [OF stale] authenticate_cases)
  qed
  have count: "\<forall>res c' w'. ensureAuthenticated net c w = (res, c', w') \<longrightarrow>
      (fetch_log w' = fetch_log w @ [authenticate_request c])
        = (\<not> token_present (accessToken c) \<or> tokenExpiry c - 60000 \<le> clock w)
      \<and> (fetch_log w' = fetch_log w)
        = (token_present (accessToken c) \<and> clock w < tokenExpiry c - 60000)"
  proof (intro allI impI)
    fix res c' w'
    assume a: "ensureAuthenticated net c w = (res, c', w')"
    show "(fetch_log w' = fetch_log w @ [authenticate_request c])
        = (\<not> token_present (accessToken c) \<or> tokenExpiry c - 60000 \<le> clock w)
      \<and> (fetch_log w' = fetch_log w)
        = (token_present (accessToken c) \<and> clock w < tokenExpiry c - 60000)"
    proof (cases "session_valid c (clock w)")
      case True
      with a have "w' = w"
        by (simp add: ensureAuthenticated_valid)
      with True show ?thesis
        by (auto simp: session_valid_def)
    next
      case False
      with a have "authenticate net c w = (res, c', w')"
        by (simp add: ensureAuthenticated_stale)
      then have "fetch_log w' = fetch_log w @ [authenticate_request c]"
        by (rule authenticate_log)
      with False show ?thesis
        by (auto simp: session_valid_def)
    qed
  qed
  have twice: "\<forall>resp dt data (w2::world).
        (\<not> token_present (accessToken c) \<or> tokenExpiry c - 60000 \<le> clock w)
        \<and> net (authenticate_request c) w = (Resolved resp, dt) \<and> ok resp
        \<and> body_token resp = Inr data \<and> id_token data \<noteq> []
        \<and> clock w2 < clock w + int dt + expires_in data * 1000 - 60000
        \<and> fetch_log w2 = fetch_log w @ [authenticate_request c] \<longrightarrow>
        ensureAuthenticated net c w =
          (Inr (),
           c\<lparr> accessToken := Some (id_token data),
              tokenExpiry := clock w + int dt + expires_in data * 1000 \<rparr>,
           w\<lparr> clock := clock w + int dt, fetch_log := fetch_log w @ [authenticate_request c] \<rparr>)
        \<and> ensureAuthenticated net
             (c\<lparr> accessToken := Some (id_token data),
                 tokenExpiry := clock w + int dt + expires_in data * 1000 \<rparr>) w2 =
          (Inr (),
           c\<lparr> accessToken := Some (id_token data),
              tokenExpiry := clock w + int dt + expires_in data * 1000 \<rparr>,
           w2)
        \<and> fetch_log w2 = fetch_log w @ [authenticate_request c]"
  proof (intro allI impI)
    fix resp dt data and w2 :: world
    assume a: "(\<not> token_present (accessToken c) \<or> tokenExpiry c - 60000 \<le> clock w)
        \<and> net (authenticate_request c) w = (Resolved resp, dt) \<and> ok resp
        \<and> body_token resp = Inr data \<and> id_token data \<noteq> []
        \<and> clock w2 < clock w + int dt + expires_in data * 1000 - 60000
        \<and> fetch_log w2 = fetch_log w @ [authenticate_request c]"
    let ?c1 = "c\<lparr> accessToken := Some (id_token data),
              tokenExpiry := clock w + int dt + expires_in data * 1000 \<rparr>"
    from a have stale: "\<not> token_present (accessToken c) \<or> tokenExpiry c - 60000 \<le> clock w"
      and net: "net (authenticate_request c) w = (Resolved resp, dt)"
      by blast+
    have first: "ensureAuthenticated net c w =
          (Inr (), ?c1,
           w\<lparr> clock := clock w + int dt, fetch_log := fetch_log w @ [authenticate_request c] \<rparr>)"
      using a by (simp add: stale_eq [OF stale] authenticate_cases [of net c w "Resolved resp" dt, OF net])
    have "session_valid ?c1 (clock w2)"
      using a by (simp add: session_valid_def token_present_def)
    then have second: "ensureAuthenticated net ?c1 w2 = (Inr (), ?c1, w2)"
      by (rule ensureAuthenticated_valid)
    from first second a show "ensureAuthenticated net c w =
          (Inr (), ?c1,
           w\<lparr> clock := clock w + int dt, fetch_log := fetch_log w @ [authenticate_request c] \<rparr>)
        \<and> ensureAuthenticated net ?c1 w2 = (Inr (), ?c1, w2)
        \<and> fetch_log w2 = fetch_log w @ [authenticate_request c]"
      by blast
  qed
  show ?thesis
    by (rule conjI, rule reuse, rule conjI, rule renew, rule conjI, rule count, rule twice)
qed

lemma example_first_call:
  "ensureAuthenticated (example_network (token_granted ''mock-id-token'' 86400)) example_client
     \<lparr> clock = 1000, fetch_log = [] \<rparr>
   = (Inr (),
      example_client\<lparr> accessToken := Some ''mock-id-token'', tokenExpiry := 86401020 \<rparr>,
      \<lparr> clock = 1020, fetch_log = [authenticate_request example_client] \<rparr>)"
  by (simp add: ensureAuthenticated_def session_valid_def authenticate_def customFetch_def
      authenticate_resume_def example_network_def token_granted_def example_client_def
      new_SpotClient_def token_present_def)

theorem ensureAuthenticated_exchanges_witness:
  "\<not> token_present (accessToken example_client)
   \<and> ensureAuthenticated (example_network (token_granted ''mock-id-token'' 86400)) example_client
        \<lparr> clock = 1000, fetch_log = [] \<rparr>
      = (Inr (),
         example_client\<lparr> accessToken := Some ''mock-id-token'', tokenExpiry := 86401020 \<rparr>,
         \<lparr> clock = 1020, fetch_log = [authenticate_request example_client] \<rparr>)
   \<and> ensureAuthenticated (example_network (token_granted ''mock-id-token'' 86400))
        (example_client\<lparr> accessToken := Some ''mock-id-token'', tokenExpiry := 86401020 \<rparr>)
        \<lparr> clock = 5000, fetch_log = [authenticate_request example_client] \<rparr>
      = (Inr (),
         example_client\<lparr> accessToken := Some ''mock-id-token'', tokenExpiry := 86401020 \<rparr>,
         \<lparr> clock = 5000, fetch_log = [authenticate_request example_client] \<rparr>)"
proof -
  have fresh: "\<not> token_present (accessToken example_client)"
    by (simp add: example_client_def new_SpotClient_def token_present_def)
  have pre: "(\<not> token_present (accessToken example_client)
        \<or> tokenExpiry example_client - 60000 \<le> clock \<lparr> clock = 1000, fetch_log = [] \<rparr>)
      \<and> example_network (token_granted ''mock-id-token'' 86400) (authenticate_request example_client)
          \<lparr> clock = 1000, fetch_log = [] \<rparr>
        = (Resolved (token_granted ''mock-id-token'' 86400), 20)
      \<and> ok (token_granted ''mock-id-token'' 86400)
      \<and> body_token (token_granted ''mock-id-token'' 86400)
        = Inr \<lparr> access_token = ''mock-access-token'', id_token = ''mock-id-token'', token_scope = [],
                expires_in = 86400, token_type = ''Bearer'' \<rparr>
      \<and> id_token \<lparr> access_token = ''mock-access-token'', id_token = ''mock-id-token'', token_scope = [],
                expires_in = 86400, token_type = ''Bearer'' \<rparr> \<noteq> []
      \<and> clock \<lparr> clock = 5000, fetch_log = [authenticate_request example_client] \<rparr>
          < clock \<lparr> clock = 1000, fetch_log = [] \<rparr> + int 20
            + expires_in \<lparr> access_token = ''mock-access-token'', id_token = ''mock-id-token'',
                token_scope = [], expires_in = 86400, token_type = ''Bearer'' \<rparr> * 1000 - 60000
      \<and> fetch_log \<lparr> clock = 5000, fetch_log = [authenticate_request example_client] \<rparr>
        = fetch_log \<lparr> clock = 1000, fetch_log = [] \<rparr> @ [authenticate_request example_client]"
    using fresh by (simp add: example_network_def token_granted_def)
  note twice = ensureAuthenticated_exchanges
    [where c = example_client and w = "\<lparr> clock = 1000, fetch_log = [] \<rparr>"
       and net = "example_network (token_granted ''mock-id-token'' 86400)",
     THEN conjunct2, THEN conjunct2, THEN conjunct2,
     THEN spec [where x = "token_granted ''mock-id-token'' 86400"],
     THEN spec [where x = 20],
     THEN spec [where x = "\<lparr> access_token = ''mock-access-token'', id_token = ''mock-id-token'',
                token_scope = [], expires_in = 86400, token_type = ''Bearer'' \<rparr>"],
     THEN spec [where x = "\<lparr> clock = 5000, fetch_log = [authenticate_request example_client] \<rparr>"],
     THEN mp, OF pre]
  from twice show ?thesis
    using fresh by simp
qed

theorem empty_token_exchanges_again_counterexample:
  "ensureAuthenticated (example_network (token_granted [] 86400)) example_client
     \<lparr> clock = 1000, fetch_log = [] \<rparr>
   = (Inr (),
      example_client\<lparr> accessToken := Some [], tokenExpiry := 86401020 \<rparr>,
      \<lparr> clock = 1020, fetch_log = [authenticate_request example_client] \<rparr>)
   \<and> accessToken (example_client\<lparr> accessToken := Some [], tokenExpiry := 86401020 \<rparr>) = Some []
   \<and> (5000::int) < tokenExpiry (example_client\<lparr> accessToken := Some [], tokenExpiry := 86401020 \<rparr>) - 60000
   \<and> ensureAuthenticated (example_network (token_granted [] 86400))
        (example_client\<lparr> accessToken := Some [], tokenExpiry := 86401020 \<rparr>)
        \<lparr> clock = 5000, fetch_log = [authenticate_request example_client] \<rparr>
      = (Inr (),
         example_client\<lparr> accessToken := Some [], tokenExpiry := 86405020 \<rparr>,
         \<lparr> clock = 5020,
           fetch_log = [authenticate_request example_client, authenticate_request example_client] \<rparr>)"
proof -
  have fresh: "\<not> session_valid example_client 1000"
    by (simp add: session_valid_def example_client_def new_SpotClient_def token_present_def)
  have empty: "\<not> session_valid (example_client\<lparr> accessToken := Some [], tokenExpiry := 86401020 \<rparr>) 5000"
    by (simp add: session_valid_def token_present_def)
  have first: "ensureAuthenticated (example_network (token_granted [] 86400)) example_client
     \<lparr> clock = 1000, fetch_log = [] \<rparr>
   = (Inr (),
      example_client\<lparr> accessToken := Some [], tokenExpiry := 86401020 \<rparr>,
      \<lparr> clock = 1020, fetch_log = [authenticate_request example_client] \<rparr>)"
    using fresh
      authenticate_cases [of "example_network (token_granted [] 86400)" example_client
        "\<lparr> clock = 1000, fetch_log = [] \<rparr>" "Resolved (token_granted [] 86400)" 20]
    by (simp add: ensureAuthenticated_def example_network_def token_granted_def)
  have second: "ensureAuthenticated (example_network (token_granted [] 86400))
        (example_client\<lparr> accessToken := Some [], tokenExpiry := 86401020 \<rparr>)
        \<lparr> clock = 5000, fetch_log = [authenticate_request example_client] \<rparr>
      = (Inr (),
         example_client\<lparr> accessToken := Some [], tokenExpiry := 86405020 \<rparr>,
         \<lparr> clock = 5020,
           fetch_log = [authenticate_request example_client, authenticate_request example_client] \<rparr>)"
    using empty
      authenticate_cases [of "example_network (token_granted [] 86400)"
        "example_client\<lparr> accessToken := Some [], tokenExpiry := 86401020 \<rparr>"
        "\<lparr> clock = 5000, fetch_log = [authenticate_request example_client] \<rparr>"
        "Resolved (token_granted [] 86400)" 20]
    by (simp add: ensureAuthenticated_def example_network_def token_granted_def
        authenticate_request_same)
  show ?thesis
    using first second by simp
qed

section \<open>The claims about outbound requests\<close>







lemma authMiddleware_other:
  "\<not> (str_includes (url req) ''/oauth/token'' \<or> str_includes (url req) ''/generate-kubeconfig'') \<Longrightarrow>
   authMiddleware net c w req =
     (case ensureAuthenticated net c w of
        (Inl msg, c', w') \<Rightarrow> (Inl msg, c', w')
      | (Inr _, c', w') \<Rightarrow>
          (case accessToken c' of
             None \<Rightarrow> (Inr req, c', w')
           | Some t \<Rightarrow>
               if t \<noteq> [] then
                 (Inr (req\<lparr> headers := headers_set ''Authorization'' (''Bearer '' @ t) (headers req) \<rparr>), c', w')
               else (Inr req, c', w')))"
  by (auto simp: authMiddleware_def)

lemma regions_request_not_exempt:
  "\<not> str_includes (url regions_request) ''/oauth/token''"
  "\<not> str_includes (url regions_request) ''/generate-kubeconfig''"
  by (simp_all add: regions_request_def API_BASE_URL_def)

lemma direct_fetch_log:
  "fetch_log (snd (customFetch net req w)) = fetch_log w @ [req]"
  by (simp add: customFetch_def split: prod.splits)






lemma example_first_request:
  "authMiddleware (example_network (token_granted ''mock-id-token'' 86400)) example_client
     \<lparr> clock = 1000, fetch_log = [] \<rparr> regions_request
   = (Inr (regions_request\<lparr> headers := [(''Authorization'', ''Bearer mock-id-token'')] \<rparr>),
      example_client\<lparr> accessToken := Some ''mock-id-token'', tokenExpiry := 86401020 \<rparr>,
      \<lparr> clock = 1020, fetch_log = [authenticate_request example_client] \<rparr>)"
  using regions_request_not_exempt
  by (simp add: authMiddleware_other example_first_call headers_set_def)
     (simp add: regions_request_def)



section \<open>The claim about callers in flight together\<close>

lemma session_stays_invalid:
  "\<not> session_valid c now \<Longrightarrow> \<not> session_valid c (now + int dt)"
  by (auto simp: session_valid_def)

lemma step_Invoke_stale:
  "\<not> session_valid (the_client s) (clock (the_world s)) \<Longrightarrow>
   step (Invoke i) s =
     s\<lparr> the_world := (the_world s)\<lparr> fetch_log := fetch_log (the_world s)
                                         @ [authenticate_request (the_client s)] \<rparr>,
        waiting := waiting s @ [i] \<rparr>"
  by simp

lemma run_invocations:
  "\<not> session_valid (the_client s) (clock (the_world s)) \<Longrightarrow> no_arrival evs \<Longrightarrow>
   the_client (run evs s) = the_client s
   \<and> fetch_log (the_world (run evs s))
       = fetch_log (the_world s) @ replicate (length (callers evs)) (authenticate_request (the_client s))
   \<and> waiting (run evs s) = waiting s @ callers evs
   \<and> observed (run evs s) = observed s"
proof (induction evs arbitrary: s)
  case Nil
  then show ?case by simp
next
  case (Cons ev evs)
  show ?case
  proof (cases ev)
    case (Invoke i)
    let ?s = "step (Invoke i) s"
    have stale: "\<not> session_valid (the_client ?s) (clock (the_world ?s))"
      using Cons.prems(1) by simp
    have rest: "no_arrival evs"
      using Cons.prems(2) Invoke by simp
    from Cons.IH [OF stale rest] Cons.prems(1) show ?thesis
      by (simp add: Invoke replicate_append_same)
  next
    case (Tick dt)
    let ?s = "step (Tick dt) s"
    have stale: "\<not> session_valid (the_client ?s) (clock (the_world ?s))"
      using Cons.prems(1) by (simp add: session_stays_invalid)
    have rest: "no_arrival evs"
      using Cons.prems(2) Tick by simp
    from Cons.IH [OF stale rest] show ?thesis
      by (simp add: Tick)
  next
    case (Arrive i r)
    with Cons.prems(2) show ?thesis by simp
  qed
qed

lemma authenticate_resume_outcome:
  "fst (authenticate_resume r c w) = fst (authenticate_resume r c0 w0)"
  by (simp add: authenticate_resume_def split: fetched.splits sum.splits)

lemma step_Arrive_waiting:
  "i \<in> set (waiting s) \<Longrightarrow>
   step (Arrive i r) s =
     s\<lparr> the_client := snd (authenticate_resume r (the_client s) (the_world s)),
        waiting := removeAll i (waiting s),
        observed := observed s @ [(i, fst (authenticate_resume r (the_client s) (the_world s)))] \<rparr>"
  by (simp split: prod.splits)

lemma ensureAuthenticated_as_events:
  assumes "\<not> session_valid c (clock w)" and "net (authenticate_request c) w = (r, dt)"
  shows "run [Invoke i, Tick dt, Arrive i r] \<lparr> the_client = c, the_world = w, waiting = [], observed = [] \<rparr>
    = \<lparr> the_client = fst (snd (ensureAuthenticated net c w)),
        the_world = snd (snd (ensureAuthenticated net c w)),
        waiting = [],
        observed = [(i, fst (ensureAuthenticated net c w))] \<rparr>"
proof -
  obtain res c' where resume: "authenticate_resume r c
      (w\<lparr> clock := clock w + int dt, fetch_log := fetch_log w @ [authenticate_request c] \<rparr>) = (res, c')"
    by (cases "authenticate_resume r c
      (w\<lparr> clock := clock w + int dt, fetch_log := fetch_log w @ [authenticate_request c] \<rparr>)")
  have same: "(w\<lparr> fetch_log := fetch_log w @ [authenticate_request c] \<rparr>)\<lparr> clock := clock w + int dt \<rparr>
      = w\<lparr> clock := clock w + int dt, fetch_log := fetch_log w @ [authenticate_request c] \<rparr>"
    by (cases w) simp
  show ?thesis
    using assms
    by (simp add: ensureAuthenticated_stale authenticate_unfold [of net c w r dt] same resume)
qed

text \<open>
  C4, as the code has it. The client keeps no record of an exchange in flight. When
  callers invoke \<open>ensureAuthenticated\<close> while the session is not valid and no response has
  arrived, each of them issues the token request: after the invocations the world has one
  more token request for every caller, every caller is waiting, and the client is as it
  was. When the response to a waiting caller's request arrives, that caller observes what
  its own response decides, whatever the client and the clock are by then, and the client
  becomes what \<open>authenticate\<close> makes of it with that response; no request is issued.
\<close>

theorem callers_each_authenticate:
  "(\<not> session_valid (the_client s) (clock (the_world s)) \<and> no_arrival evs \<longrightarrow>
      fetch_log (the_world (run evs s))
        = fetch_log (the_world s) @ replicate (length (callers evs)) (authenticate_request (the_client s))
      \<and> waiting (run evs s) = waiting s @ callers evs
      \<and> the_client (run evs s) = the_client s
      \<and> observed (run evs s) = observed s)
   \<and> (i \<in> set (waiting s) \<longrightarrow>
        (\<forall>c0 w0. observed (step (Arrive i r) s) = observed s @ [(i, fst (authenticate_resume r c0 w0))])
        \<and> the_client (step (Arrive i r) s) = snd (authenticate_resume r (the_client s) (the_world s))
        \<and> the_world (step (Arrive i r) s) = the_world s
        \<and> waiting (step (Arrive i r) s) = removeAll i (waiting s))"
proof (rule conjI)
  show "\<not> session_valid (the_client s) (clock (the_world s)) \<and> no_arrival evs \<longrightarrow>
      fetch_log (the_world (run evs s))
        = fetch_log (the_world s) @ replicate (length (callers evs)) (authenticate_request (the_client s))
      \<and> waiting (run evs s) = waiting s @ callers evs
      \<and> the_client (run evs s) = the_client s
      \<and> observed (run evs s) = observed s"
    using run_invocations [of s evs] by blast
next
  show "i \<in> set (waiting s) \<longrightarrow>
        (\<forall>c0 w0. observed (step (Arrive i r) s) = observed s @ [(i, fst (authenticate_resume r c0 w0))])
        \<and> the_client (step (Arrive i r) s) = snd (authenticate_resume r (the_client s) (the_world s))
        \<and> the_world (step (Arrive i r) s) = the_world s
        \<and> waiting (step (Arrive i r) s) = removeAll i (waiting s)"
  proof
    assume w: "i \<in> set (waiting s)"
    have "\<And>c0 w0. fst (authenticate_resume r (the_client s) (the_world s)) = fst (authenticate_resume r c0 w0)"
      by (rule authenticate_resume_outcome)
    then show "(\<forall>c0 w0. observed (step (Arrive i r) s) = observed s @ [(i, fst (authenticate_resume r c0 w0))])
        \<and> the_client (step (Arrive i r) s) = snd (authenticate_resume r (the_client s) (the_world s))
        \<and> the_world (step (Arrive i r) s) = the_world s
        \<and> waiting (step (Arrive i r) s) = removeAll i (waiting s)"
      by (simp add: step_Arrive_waiting [OF w] del: step.simps)
  qed
qed

lemma example_stale: "\<not> session_valid example_client now"
  by (simp add: session_valid_def example_client_def new_SpotClient_def token_present_def)

lemma resume_granted:
  "authenticate_resume (Resolved (token_granted tok secs)) c w
   = (Inr (), c\<lparr> accessToken := Some tok, tokenExpiry := clock w + secs * 1000 \<rparr>)"
  by (simp add: authenticate_resume_def token_granted_def)

lemma resume_refused:
  "authenticate_resume (Resolved token_refused) c w
   = (Inl ''Authentication failed: 401 - Unauthorized'', c)"
  by (simp add: authenticate_resume_def token_refused_def string_of_401)

lemma example_two_callers:
  "run [Invoke 0, Invoke 1, Tick 20,
        Arrive 0 (Resolved (token_granted ''mock-id-token'' 86400)),
        Arrive 1 (Resolved token_refused)]
     \<lparr> the_client = example_client, the_world = \<lparr> clock = 1000, fetch_log = [] \<rparr>,
       waiting = [], observed = [] \<rparr>
   = \<lparr> the_client = example_client\<lparr> accessToken := Some ''mock-id-token'', tokenExpiry := 86401020 \<rparr>,
       the_world = \<lparr> clock = 1020,
                     fetch_log = [authenticate_request example_client, authenticate_request example_client] \<rparr>,
       waiting = [],
       observed = [(0, Inr ()), (1, Inl ''Authentication failed: 401 - Unauthorized'')] \<rparr>"
proof -
  let ?req = "authenticate_request example_client"
  let ?c1 = "example_client\<lparr> accessToken := Some ''mock-id-token'', tokenExpiry := 86401020 \<rparr>"
  have s1: "step (Invoke 0)
      \<lparr> the_client = example_client, the_world = \<lparr> clock = 1000, fetch_log = [] \<rparr>,
        waiting = [], observed = [] \<rparr>
    = \<lparr> the_client = example_client, the_world = \<lparr> clock = 1000, fetch_log = [?req] \<rparr>,
        waiting = [0], observed = [] \<rparr>"
    by (simp add: example_stale)
  have s2: "step (Invoke 1)
      \<lparr> the_client = example_client, the_world = \<lparr> clock = 1000, fetch_log = [?req] \<rparr>,
        waiting = [0], observed = [] \<rparr>
    = \<lparr> the_client = example_client, the_world = \<lparr> clock = 1000, fetch_log = [?req, ?req] \<rparr>,
        waiting = [0, 1], observed = [] \<rparr>"
    by (simp add: example_stale)
  have s3: "step (Tick 20)
      \<lparr> the_client = example_client, the_world = \<lparr> clock = 1000, fetch_log = [?req, ?req] \<rparr>,
        waiting = [0, 1], observed = [] \<rparr>
    = \<lparr> the_client = example_client, the_world = \<lparr> clock = 1020, fetch_log = [?req, ?req] \<rparr>,
        waiting = [0, 1], observed = [] \<rparr>"
    by simp
  have s4: "step (Arrive 0 (Resolved (token_granted ''mock-id-token'' 86400)))
      \<lparr> the_client = example_client, the_world = \<lparr> clock = 1020, fetch_log = [?req, ?req] \<rparr>,
        waiting = [0, 1], observed = [] \<rparr>
    = \<lparr> the_client = ?c1, the_world = \<lparr> clock = 1020, fetch_log = [?req, ?req] \<rparr>,
        waiting = [1], observed = [(0, Inr ())] \<rparr>"
    by (simp add: resume_granted)
  have s5: "step (Arrive 1 (Resolved token_refused))
      \<lparr> the_client = ?c1, the_world = \<lparr> clock = 1020, fetch_log = [?req, ?req] \<rparr>,
        waiting = [1], observed = [(0, Inr ())] \<rparr>
    = \<lparr> the_client = ?c1, the_world = \<lparr> clock = 1020, fetch_log = [?req, ?req] \<rparr>,
        waiting = [], observed = [(0, Inr ()), (1, Inl ''Authentication failed: 401 - Unauthorized'')] \<rparr>"
    by (simp add: resume_refused)
  show ?thesis
    by (simp only: run.simps s1 s2 s3 s4 s5)
qed

theorem callers_each_authenticate_witness:
  "\<not> session_valid example_client 1000
   \<and> no_arrival [Invoke 0, Tick 5, Invoke 1]
   \<and> fetch_log (the_world (run [Invoke 0, Tick 5, Invoke 1]
        \<lparr> the_client = example_client, the_world = \<lparr> clock = 1000, fetch_log = [] \<rparr>,
          waiting = [], observed = [] \<rparr>))
      = [authenticate_request example_client, authenticate_request example_client]
   \<and> waiting (run [Invoke 0, Tick 5, Invoke 1]
        \<lparr> the_client = example_client, the_world = \<lparr> clock = 1000, fetch_log = [] \<rparr>,
          waiting = [], observed = [] \<rparr>) = [0, 1]"
proof -
  have stale: "\<not> session_valid example_client 1000"
    by (rule example_stale)
  have quiet: "no_arrival [Invoke 0, Tick 5, Invoke 1]"
    by simp
  have pre: "\<not> session_valid
        (the_client \<lparr> the_client = example_client, the_world = \<lparr> clock = 1000, fetch_log = [] \<rparr>,
          waiting = [], observed = [] \<rparr>)
        (clock (the_world \<lparr> the_client = example_client, the_world = \<lparr> clock = 1000, fetch_log = [] \<rparr>,
          waiting = [], observed = [] \<rparr>))
      \<and> no_arrival [Invoke 0, Tick 5, Invoke 1]"
    using stale by simp
  from callers_each_authenticate [THEN conjunct1, THEN mp, OF pre]
  show ?thesis
    using stale by (simp add: numeral_2_eq_2)
qed

theorem coalescing_counterexample:
  "length (fetch_log (the_world (run [Invoke 0, Invoke 1, Tick 20,
        Arrive 0 (Resolved (token_granted ''mock-id-token'' 86400)),
        Arrive 1 (Resolved token_refused)]
     \<lparr> the_client = example_client, the_world = \<lparr> clock = 1000, fetch_log = [] \<rparr>,
       waiting = [], observed = [] \<rparr>))) = 2
   \<and> observed (run [Invoke 0, Invoke 1, Tick 20,
        Arrive 0 (Resolved (token_granted ''mock-id-token'' 86400)),
        Arrive 1 (Resolved token_refused)]
     \<lparr> the_client = example_client, the_world = \<lparr> clock = 1000, fetch_log = [] \<rparr>,
       waiting = [], observed = [] \<rparr>)
     = [(0, Inr ()), (1, Inl ''Authentication failed: 401 - Unauthorized'')]"
  unfolding example_two_callers by simp

end
